theory Spec2Isabelle
  imports Complex_Main
begin

section \<open>The result-log analyser of sebak-hot-body (cmd/result.go)\<close>

text \<open>
  The command \<^verbatim>\<open>result\<close> reads a newline-delimited JSON log, decodes every line with
  \<^verbatim>\<open>loadLine\<close> and reduces the decoded records in \<^verbatim>\<open>runResult\<close> to a latency
  histogram, an error taxonomy and two throughput figures.

  Conventions of the embedding:
  \<^item> a Go \<^verbatim>\<open>interface{}\<close> holding a decoded JSON value is a value of \<open>json\<close>; a
    \<^verbatim>\<open>map[string]interface{}\<close> is the association list of an object, read with
    \<open>map_of\<close>; a missing key reads as \<open>None\<close>, Go's nil interface;
  \<^item> a \<^verbatim>\<open>float64\<close> is a \<open>real\<close>: the arithmetic on elapsed times is exact as long as
    the durations stay below \<open>2 ^ 53\<close> nanoseconds (about 104 days), where every
    integer has its own float and the quotient by the bucket width rounds to the same
    integer part; only the division of the throughput figures, whose divisor can be
    zero, keeps the infinities and NaN of IEEE arithmetic (type \<open>f64\<close>);
  \<^item> Go's \<^verbatim>\<open>int\<close> (64 bits) and \<^verbatim>\<open>time.Duration\<close> are \<open>int\<close>; a \<^verbatim>\<open>time.Time\<close> is
    the number of nanoseconds since the zero time, so that the zero \<^verbatim>\<open>time.Time\<close> is
    \<open>0\<close>; the conversion of a float to \<^verbatim>\<open>int\<close> is \<open>go_int\<close> where the elapsed times
    keep it in range, and \<open>float_to_int\<close>, with the out-of-range result left to the
    platform, where the log supplies the number;
  \<^item> a failed type assertion, an out-of-range slice and every other run-time panic is
    the value \<open>Panicked\<close>; an error return is \<open>Failed\<close>;
  \<^item> the package-level variables \<^verbatim>\<open>started\<close> and \<^verbatim>\<open>ended\<close> are the record
    \<open>boundaries\<close>, passed in and returned;
  \<^item> the input file is the list of its lines, as \<^verbatim>\<open>bufio.Scanner\<close> with
    \<^verbatim>\<open>ScanLines\<close> yields them (no read error, no over-long line).
\<close>

subsection \<open>Decoded JSON and the record model\<close>

datatype json =
    JNull
  | JBool bool
  | JNumber real
  | JString string
  | JArray "json list"
  | JObject "(string \<times> json) list"

datatype error =
    JSONError
  | InvalidFormat
  | UnknownType string
  | ConfigDecodeError
  | RecordDecodeError

datatype 'a result = Return 'a | Failed error | Panicked

text \<open>
  Modelled from the spec: the package \<^verbatim>\<open>hotbody\<close> (the types \<^verbatim>\<open>Record\<close>,
  \<^verbatim>\<open>HotterConfig\<close>, \<^verbatim>\<open>RecordCreateAccounts\<close>, \<^verbatim>\<open>RecordPayment\<close>,
  \<^verbatim>\<open>RecordSEBAKError\<close>) is not part of the sources at hand. A record carries what the
  accessors used by \<^verbatim>\<open>runResult\<close> return: \<^verbatim>\<open>GetTime\<close>, \<^verbatim>\<open>GetElapsed\<close>,
  \<^verbatim>\<open>GetError\<close> (\<open>None\<close> is Go's nil error), \<^verbatim>\<open>GetErrorType\<close> and
  \<^verbatim>\<open>GetRawError\<close>; \<^verbatim>\<open>GetType\<close> is the discriminator of the variant. Of the
  configuration only the fields that \<^verbatim>\<open>runResult\<close> computes with or slices are kept.
\<close>

record HotterConfig =
  Operations :: int
  InitAccount :: string
  NodeAddress :: string
  BlockHash :: string

record RecordBody =
  Time :: int
  Elapsed :: int
  Error :: "string option"
  ErrorType :: string
  RawError :: "(string \<times> json) list"

datatype Record =
    Config HotterConfig
  | CreateAccounts RecordBody
  | Payment RecordBody
  | SEBAKError RecordBody

fun GetType :: "Record \<Rightarrow> string" where
  "GetType (Config _) = ''config''"
| "GetType (CreateAccounts _) = ''create-accounts''"
| "GetType (Payment _) = ''payment''"
| "GetType (SEBAKError _) = ''sebak-error''"

text \<open>The accessors below are only applied to payment records by \<^verbatim>\<open>runResult\<close>; a
  configuration has no body, and reads as the zero values.\<close>

definition zeroBody :: RecordBody where
  "zeroBody = \<lparr>Time = 0, Elapsed = 0, Error = None, ErrorType = [], RawError = []\<rparr>"

fun body :: "Record \<Rightarrow> RecordBody" where
  "body (Config _) = zeroBody"
| "body (CreateAccounts b) = b"
| "body (Payment b) = b"
| "body (SEBAKError b) = b"

definition GetTime :: "Record \<Rightarrow> int" where
  "GetTime r = Time (body r)"

definition GetElapsed :: "Record \<Rightarrow> int" where
  "GetElapsed r = Elapsed (body r)"

definition GetError :: "Record \<Rightarrow> string option" where
  "GetError r = Error (body r)"

definition GetErrorType :: "Record \<Rightarrow> string" where
  "GetErrorType r = ErrorType (body r)"

subsection \<open>The decoders outside the repository\<close>

text \<open>
  \<^verbatim>\<open>encoding/json\<close> and \<^verbatim>\<open>common.ParseISO8601\<close> (package
  \<^verbatim>\<open>boscoin.io/sebak/lib/common\<close>) are libraries, and the struct types that the typed
  decodings fill belong to \<^verbatim>\<open>hotbody\<close>. They are parameters of the model:
  \<^item> \<open>parse_json s\<close> is \<open>None\<close> when the text \<open>s\<close> is not valid JSON, which
    \<^verbatim>\<open>json.Unmarshal\<close> finds out before it stores anything. Otherwise it is
    \<open>Some (v, err)\<close>, where \<open>v\<close> is the value as \<^verbatim>\<open>json.Unmarshal\<close> stores it in an
    \<^verbatim>\<open>interface{}\<close> and \<open>err\<close> tells whether it returns an error all the same: a number
    too large for a \<^verbatim>\<open>float64\<close> is stored as nil, the rest of the text is decoded, and
    the error is returned at the end;
  \<^item> \<open>int_out_of_range x\<close> is the result of Go's conversion \<^verbatim>\<open>int(x)\<close> of a float whose
    integer part does not fit 64 bits, which the language leaves to the implementation;
  \<^item> \<open>parse_time s\<close> is the time an ISO-8601 text denotes, \<open>None\<close> when it denotes none;
  \<^item> \<open>decode_config v\<close> is \<^verbatim>\<open>json.Unmarshal\<close> of the re-serialised value \<open>v\<close> into a
    \<^verbatim>\<open>hotbody.HotterConfig\<close>;
  \<^item> \<open>decode_create_accounts\<close>, \<open>decode_payment\<close> and \<open>decode_sebak_error\<close> are
    \<^verbatim>\<open>json.Unmarshal\<close> of the whole line into the struct of that name.
\<close>

record env =
  parse_json :: "string \<Rightarrow> (json \<times> bool) option"
  int_out_of_range :: "real \<Rightarrow> int"
  parse_time :: "string \<Rightarrow> int option"
  decode_config :: "json \<Rightarrow> HotterConfig option"
  decode_create_accounts :: "string \<Rightarrow> RecordBody option"
  decode_payment :: "string \<Rightarrow> RecordBody option"
  decode_sebak_error :: "string \<Rightarrow> RecordBody option"

text \<open>
  \<^verbatim>\<open>json.Unmarshal([]byte(l), &d)\<close> with \<^verbatim>\<open>d\<close> a nil \<^verbatim>\<open>map[string]interface{}\<close>: the
  map it leaves in \<^verbatim>\<open>d\<close>, and whether it returns an error. An object fills the map,
  also when one of its numbers is reported as too large; the JSON value \<^verbatim>\<open>null\<close> leaves
  the map nil without an error; any other value and any invalid text is an error and
  leaves the map nil.
\<close>

definition unmarshal_into_map :: "env \<Rightarrow> string \<Rightarrow> (string \<times> json) list \<times> bool" where
  "unmarshal_into_map e l =
     (case parse_json e l of
        None \<Rightarrow> ([], True)
      | Some (v, err) \<Rightarrow>
          (case v of
             JObject kv \<Rightarrow> (kv, err)
           | JNull \<Rightarrow> ([], err)
           | _ \<Rightarrow> ([], True)))"

text \<open>
  The same call followed by \<^verbatim>\<open>if err != nil { return }\<close>, as in line 72: the map is
  used only when no error was returned.
\<close>

definition unmarshal_map :: "env \<Rightarrow> string \<Rightarrow> (string \<times> json) list option" where
  "unmarshal_map e l =
     (case unmarshal_into_map e l of (d, err) \<Rightarrow> if err then None else Some d)"

text \<open>
  \<^verbatim>\<open>common.ParseISO8601\<close> returns a time and an error; as \<^verbatim>\<open>time.Parse\<close>, which it
  wraps, it returns the zero time together with the error.
\<close>

definition ParseISO8601 :: "env \<Rightarrow> string \<Rightarrow> int \<times> bool" where
  "ParseISO8601 e s =
     (case parse_time e s of None \<Rightarrow> (0, True) | Some t \<Rightarrow> (t, False))"

subsection \<open>loadLine\<close>

record boundaries =
  started :: int
  ended :: int

definition loadLine :: "env \<Rightarrow> boundaries \<Rightarrow> string \<Rightarrow> (Record option \<times> boundaries) result" where
  "loadLine e b l =
     (case unmarshal_map e l of
        None \<Rightarrow> Failed JSONError
      | Some d \<Rightarrow>
          (case map_of d ''type'' of
             None \<Rightarrow> Failed InvalidFormat
           | Some (JString recordType) \<Rightarrow>
               if recordType = ''started'' then
                 (case map_of d ''time'' of
                    Some (JString s) \<Rightarrow> Return (None, b\<lparr>started := fst (ParseISO8601 e s)\<rparr>)
                  | _ \<Rightarrow> Panicked)
               else if recordType = ''ended'' then
                 (case map_of d ''time'' of
                    Some (JString s) \<Rightarrow> Return (None, b\<lparr>ended := fst (ParseISO8601 e s)\<rparr>)
                  | _ \<Rightarrow> Panicked)
               else if recordType = ''config'' then
                 (case decode_config e (case map_of d ''config'' of None \<Rightarrow> JNull | Some v \<Rightarrow> v) of
                    None \<Rightarrow> Failed ConfigDecodeError
                  | Some c \<Rightarrow> Return (Some (Config c), b))
               else if recordType = ''create-accounts'' then
                 (case decode_create_accounts e l of
                    None \<Rightarrow> Failed RecordDecodeError
                  | Some r \<Rightarrow> Return (Some (CreateAccounts r), b))
               else if recordType = ''payment'' then
                 (case decode_payment e l of
                    None \<Rightarrow> Failed RecordDecodeError
                  | Some r \<Rightarrow> Return (Some (Payment r), b))
               else if recordType = ''sebak-error'' then
                 (case decode_sebak_error e l of
                    None \<Rightarrow> Failed RecordDecodeError
                  | Some r \<Rightarrow> Return (Some (SEBAKError r), b))
               else Failed (UnknownType recordType)
           | Some _ \<Rightarrow> Panicked))"

subsection \<open>runResult: reading the log\<close>

text \<open>Go's conversion \<^verbatim>\<open>int(x)\<close> of a float discards the fraction (rounds towards zero).\<close>

definition go_int :: "real \<Rightarrow> int" where
  "go_int x = (if 0 \<le> x then \<lfloor>x\<rfloor> else \<lceil>x\<rceil>)"

text \<open>
  The same conversion of a float that comes from the log and may be of any size: within
  the 64 bits of \<^verbatim>\<open>int\<close> it discards the fraction, outside it is what the platform gives.
\<close>

definition float_to_int :: "env \<Rightarrow> real \<Rightarrow> int" where
  "float_to_int e x =
     (if - 9223372036854775808 \<le> go_int x \<and> go_int x \<le> 9223372036854775807 then go_int x
      else int_out_of_range e x)"

text \<open>\<^verbatim>\<open>m[k]++\<close> on a map of counters: a missing key reads as zero.\<close>

definition increment :: "('k \<rightharpoonup> int) \<Rightarrow> 'k \<Rightarrow> ('k \<rightharpoonup> int)" where
  "increment m k = m(k \<mapsto> (case m k of None \<Rightarrow> 0 | Some c \<Rightarrow> c) + 1)"

text \<open>
  Lines 163 to 175, the body of \<^verbatim>\<open>if sr, ok := record.(hotbody.RecordSEBAKError); ok\<close>,
  applied to \<^verbatim>\<open>sr.GetRawError()\<close> and the counters \<^verbatim>\<open>sebakErrors\<close>. The two
  \<^verbatim>\<open>continue\<close> statements return the counters as they are. The error of the inner
  \<^verbatim>\<open>json.Unmarshal\<close> is dropped, and \<^verbatim>\<open>body\<close> is the map that the call has left: nil,
  where every key is missing, unless the text is an object.
  The type assertions \<^verbatim>\<open>.(map[string]interface{})\<close>, \<^verbatim>\<open>.(string)\<close> and
  \<^verbatim>\<open>.(float64)\<close> are of the one-result form, which panics.
\<close>

definition count_sebak_error ::
    "env \<Rightarrow> (int \<rightharpoonup> int) \<Rightarrow> (string \<times> json) list \<Rightarrow> (int \<rightharpoonup> int) result" where
  "count_sebak_error e errs raw =
     (case map_of raw ''data'' of
        None \<Rightarrow> Return errs
      | Some (JObject dm) \<Rightarrow>
          (case map_of dm ''body'' of
             Some (JString j) \<Rightarrow>
               (let body = fst (unmarshal_into_map e j) in
                  case map_of body ''code'' of
                    None \<Rightarrow> Return errs
                  | Some (JNumber c) \<Rightarrow> Return (increment errs (float_to_int e c))
                  | Some _ \<Rightarrow> Panicked)
           | _ \<Rightarrow> Panicked)
      | Some _ \<Rightarrow> Panicked)"

record loaded =
  records :: "Record list"
  sebakErrors :: "int \<rightharpoonup> int"
  bounds :: boundaries

text \<open>
  One turn of the loop \<^verbatim>\<open>for sc.Scan()\<close>, lines 154 to 181. The result \<open>Failed err\<close>
  is the call of \<^verbatim>\<open>printError\<close> with the error of \<^verbatim>\<open>loadLine\<close>, which ends the run
  (see \<open>printError\<close> below).
\<close>

definition ingest_line :: "env \<Rightarrow> loaded \<Rightarrow> string \<Rightarrow> loaded result" where
  "ingest_line e st s =
     (case loadLine e (bounds st) s of
        Failed err \<Rightarrow> Failed err
      | Panicked \<Rightarrow> Panicked
      | Return (None, b) \<Rightarrow> Return (st\<lparr>bounds := b\<rparr>)
      | Return (Some record, b) \<Rightarrow>
          if GetType record \<noteq> ''payment'' then
            (case record of
               SEBAKError sr \<Rightarrow>
                 (case count_sebak_error e (sebakErrors st) (RawError sr) of
                    Return errs \<Rightarrow> Return (st\<lparr>sebakErrors := errs, bounds := b\<rparr>)
                  | Failed err \<Rightarrow> Failed err
                  | Panicked \<Rightarrow> Panicked)
             | _ \<Rightarrow> Return (st\<lparr>bounds := b\<rparr>))
          else Return (st\<lparr>records := records st @ [record], bounds := b\<rparr>))"

fun load_records :: "env \<Rightarrow> loaded \<Rightarrow> string list \<Rightarrow> loaded result" where
  "load_records e st [] = Return st"
| "load_records e st (s # ss) =
     (case ingest_line e st s of
        Return st' \<Rightarrow> load_records e st' ss
      | Failed err \<Rightarrow> Failed err
      | Panicked \<Rightarrow> Panicked)"

subsection \<open>runResult: the statistics\<close>

definition step :: real where
  "step = 50000000000"

record aggregator =
  els :: "real \<rightharpoonup> int"
  maxElapsedTime :: real
  minElapsedTime :: real
  countError :: int
  errorTypes :: "string \<rightharpoonup> int"

definition aggregator_init :: aggregator where
  "aggregator_init =
     \<lparr>els = Map.empty, maxElapsedTime = 0, minElapsedTime = - 1, countError = 0,
      errorTypes = Map.empty\<rparr>"

text \<open>One turn of the loop \<^verbatim>\<open>for _, r := range records\<close>, lines 202 to 218.\<close>

definition aggregate_record :: "aggregator \<Rightarrow> Record \<Rightarrow> aggregator" where
  "aggregate_record a r =
     (let es = of_int (GetElapsed r);
          i = go_int (es / step) * go_int step;
          a' = a\<lparr>els := increment (els a) (of_int i),
                 maxElapsedTime := max (maxElapsedTime a) es,
                 minElapsedTime := (if minElapsedTime a < 0 then es else min (minElapsedTime a) es)\<rparr>
      in if GetError r = None then a'
         else a'\<lparr>countError := countError a' + 1,
                 errorTypes := increment (errorTypes a') (GetErrorType r)\<rparr>)"

definition aggregate_records :: "Record list \<Rightarrow> aggregator" where
  "aggregate_records rs = foldl aggregate_record aggregator_init rs"

text \<open>
  The loop of lines 222 to 227, \<^verbatim>\<open>for i := float64(0); i < bound; i += step\<close>, from
  the current \<open>i\<close>: it fills the missing buckets with zero and collects the keys.
\<close>

function fill_buckets ::
    "real \<Rightarrow> real \<Rightarrow> (real \<rightharpoonup> int) \<Rightarrow> int list \<Rightarrow> (real \<rightharpoonup> int) \<times> int list" where
  "fill_buckets i bound m elsKeys =
     (if i < bound
      then fill_buckets (i + step) bound (if m i = None then m(i \<mapsto> 0) else m)
             (elsKeys @ [go_int i])
      else (m, elsKeys))"
  by pat_completeness auto
termination
proof (relation "measure (\<lambda>(i, bound, m, elsKeys). nat \<lceil>(bound - i) / step\<rceil>)")
  show "wf (measure (\<lambda>(i, bound, m, elsKeys). nat \<lceil>(bound - i) / step\<rceil>))"
    by simp
next
  fix i bound :: real and m :: "real \<rightharpoonup> int" and elsKeys :: "int list"
  assume lt: "i < bound"
  have eq: "(bound - (i + step)) / step = (bound - i) / step - 1"
    by (simp add: step_def field_simps)
  have pos: "0 < (bound - i) / step"
    using lt by (simp add: step_def)
  then have "0 < \<lceil>(bound - i) / step\<rceil>"
    by (simp add: less_ceiling_iff)
  then show "((i + step, bound, if m i = None then m(i \<mapsto> 0) else m, elsKeys @ [go_int i]),
              (i, bound, m, elsKeys))
             \<in> measure (\<lambda>(i, bound, m, elsKeys). nat \<lceil>(bound - i) / step\<rceil>)"
    by (simp add: eq)
qed

text \<open>Lines 221 to 229: the bound is written as in the source; the keys are sorted.\<close>

definition finalize :: "aggregator \<Rightarrow> (real \<rightharpoonup> int) \<times> int list" where
  "finalize a =
     (case fill_buckets 0 (((maxElapsedTime a / step) * step) + step) (els a) [] of
        (m, elsKeys) \<Rightarrow> (m, sort elsKeys))"

subsection \<open>runResult: the report\<close>

text \<open>
  IEEE division of two finite numbers: a zero divisor does not panic in Go, the
  quotient is an infinity or NaN.
\<close>

datatype f64 = Finite real | PosInf | NegInf | NaN

definition fdiv :: "real \<Rightarrow> real \<Rightarrow> f64" where
  "fdiv x y =
     (if y = 0 then (if 0 < x then PosInf else if x < 0 then NegInf else NaN)
      else Finite (x / y))"

text \<open>
  \<^verbatim>\<open>time.Time.Sub\<close> saturates at the largest and smallest \<^verbatim>\<open>time.Duration\<close>;
  \<^verbatim>\<open>Duration.Seconds\<close> is the duration in seconds as a float.
\<close>

definition time_Sub :: "int \<Rightarrow> int \<Rightarrow> int" where
  "time_Sub t u =
     (let d = t - u
      in if d > 9223372036854775807 then 9223372036854775807
         else if d < - 9223372036854775808 then - 9223372036854775808
         else d)"

definition Seconds :: "int \<Rightarrow> real" where
  "Seconds d = of_int d / 1000000000"

text \<open>\<^verbatim>\<open>formatAddress\<close>, line 252: the slice \<^verbatim>\<open>s[:13]\<close> panics on a shorter string.\<close>

definition formatAddress :: "string \<Rightarrow> string option" where
  "formatAddress s =
     (if length s < 13 then None
      else Some (take 13 s @ ''...'' @ drop (length s - 13) s))"

text \<open>
  What the rows of the table are computed from. The formatting of the rows
  (\<^verbatim>\<open>fmt.Sprintf\<close>, the table writer) is left out. \<open>distribution\<close> lists, for every
  key of \<^verbatim>\<open>elsKeys\<close> in order, the key and the count \<^verbatim>\<open>els[float64(e)]\<close>.
\<close>

record report =
  requests :: int
  operations :: int
  error_count :: int
  error_rate :: real
  max_elapsed :: real
  min_elapsed :: real
  distribution :: "(int \<times> int) list"
  time_started :: int
  time_ended :: int
  expected_ops :: f64
  real_ops :: f64
  error_types :: "string \<rightharpoonup> int"
  sebak_errors :: "int \<rightharpoonup> int"

datatype outcome =
    ExitReport report
  | ExitNoRecords
  | ExitFatal error
  | ExitPanic

text \<open>
  Modelled from the spec: \<^verbatim>\<open>printError\<close> belongs to the package \<^verbatim>\<open>cmd\<close> but is not
  in the sources at hand. Following sections 6 and 7 of the specification (every decode
  error is fatal: the run aborts with a diagnostic and a non-zero exit status) a call of
  it ends the process.
\<close>

definition printError :: "error \<Rightarrow> outcome" where
  "printError err = ExitFatal err"

text \<open>
  The exit status of the process: \<^verbatim>\<open>os.Exit(0)\<close> after the table, \<^verbatim>\<open>os.Exit(1)\<close>
  after "no records found", the non-zero status of \<^verbatim>\<open>printError\<close>, and the status 2
  of a Go program that panics.
\<close>

fun exit_status :: "outcome \<Rightarrow> int" where
  "exit_status (ExitReport _) = 0"
| "exit_status ExitNoRecords = 1"
| "exit_status (ExitFatal _) = 1"
| "exit_status ExitPanic = 2"

text \<open>Lines 194 to 399, reached with at least one payment record.\<close>

definition build_report :: "bool \<Rightarrow> HotterConfig \<Rightarrow> loaded \<Rightarrow> outcome" where
  "build_report flagBrief config st =
     (let a = aggregate_records (records st);
          (m, elsKeys) = finalize a;
          n = int (length (records st));
          lastTime = GetTime (last (records st));
          totalSeconds = Seconds (time_Sub lastTime (started (bounds st)))
      in if \<not> flagBrief \<and>
            (formatAddress (InitAccount config) = None \<or>
             formatAddress (NodeAddress config) = None \<or>
             formatAddress (BlockHash config) = None)
         then ExitPanic
         else ExitReport
           \<lparr>requests = n,
            operations = n * Operations config,
            error_count = countError a,
            error_rate = of_int (countError a) / of_int n * 100,
            max_elapsed = maxElapsedTime a / 10000000000,
            min_elapsed = minElapsedTime a / 10000000000,
            distribution =
              map (\<lambda>k. (k, case m (of_int k) of None \<Rightarrow> 0 | Some c \<Rightarrow> c)) elsKeys,
            time_started = started (bounds st),
            time_ended = lastTime,
            expected_ops = fdiv (of_int (n * Operations config)) totalSeconds,
            real_ops = fdiv (of_int ((n - countError a) * Operations config)) totalSeconds,
            error_types = errorTypes a,
            sebak_errors = sebakErrors st\<rparr>)"

text \<open>
  \<^verbatim>\<open>runResult\<close>. \<^verbatim>\<open>sc.Scan(); headLine := sc.Text()\<close> reads the first line, the empty
  string when the file has none. The type assertion \<^verbatim>\<open>record.(hotbody.HotterConfig)\<close>
  is of the one-result form: it panics on a nil record and on any other record type.
\<close>

definition headLine :: "string list \<Rightarrow> string" where
  "headLine ls = (case ls of [] \<Rightarrow> [] | l # _ \<Rightarrow> l)"

definition runResult :: "env \<Rightarrow> bool \<Rightarrow> string list \<Rightarrow> outcome" where
  "runResult e flagBrief ls =
     (case loadLine e \<lparr>started = 0, ended = 0\<rparr> (headLine ls) of
        Failed err \<Rightarrow> printError err
      | Panicked \<Rightarrow> ExitPanic
      | Return (Some (Config config), b) \<Rightarrow>
          (case load_records e \<lparr>records = [], sebakErrors = Map.empty, bounds = b\<rparr> (drop 1 ls) of
             Failed err \<Rightarrow> printError err
           | Panicked \<Rightarrow> ExitPanic
           | Return st \<Rightarrow>
               if length (records st) < 1 then ExitNoRecords
               else build_report flagBrief config st)
      | Return _ \<Rightarrow> ExitPanic)"

subsection \<open>A sample log\<close>

text \<open>
  The lines of a small log and an environment that decodes exactly these lines, used
  to run the model on concrete input. \<open>t2019\<close> is 2019-01-01T00:00:00Z in nanoseconds
  since the zero time.
\<close>

definition t2019 :: int where
  "t2019 = 63681897600000000000"

definition config_line :: string where
  \<open>config_line = ''{"type":"config","config":{"operations":2}}''\<close>

definition started_line :: string where
  \<open>started_line = ''{"type":"started","time":"2019-01-01T00:00:00Z"}''\<close>

definition bad_started_line :: string where
  \<open>bad_started_line = ''{"type":"started","time":"yesterday"}''\<close>

definition untimed_ended_line :: string where
  \<open>untimed_ended_line = ''{"type":"ended"}''\<close>

definition numeric_type_line :: string where
  \<open>numeric_type_line = ''{"type":1}''\<close>

definition payment_10_line :: string where
  \<open>payment_10_line = ''{"type":"payment","time":"2019-01-01T00:00:00Z","elapsed":10000000000}''\<close>

definition payment_60_line :: string where
  \<open>payment_60_line = ''{"type":"payment","time":"2019-01-01T00:01:00Z","elapsed":60000000000}''\<close>

definition payment_120_line :: string where
  \<open>payment_120_line = ''{"type":"payment","time":"2019-01-01T00:02:00Z","elapsed":120000000000}''\<close>

definition payment_timeout_line :: string where
  \<open>payment_timeout_line =
     ''{"type":"payment","time":"2019-01-01T00:00:00Z","elapsed":1,"error":"timeout","errorType":"timeout"}''\<close>

definition accounts_error_line :: string where
  \<open>accounts_error_line =
     ''{"type":"create-accounts","time":"2019-01-01T00:00:00Z","elapsed":5,"error":"timeout","errorType":"timeout"}''\<close>

text \<open>
  The sebak-error lines carry their raw error under \<^verbatim>\<open>error\<close>. A body is JSON text
  inside a JSON string, so its quotes are escaped in the line: \<open>escaped_quote\<close> is a
  backslash followed by a quote.
\<close>

definition escaped_quote :: string where
  "escaped_quote = [CHR 0x5C, CHR 0x22]"

definition sebak_702_line :: string where
  \<open>sebak_702_line =
     ''{"type":"sebak-error","error":{"data":{"body":"{'' @ escaped_quote @ ''code'' @
     escaped_quote @ '':702}"}}}''\<close>

definition sebak_no_data_line :: string where
  \<open>sebak_no_data_line = ''{"type":"sebak-error","error":{"message":"x"}}''\<close>

definition sebak_bad_body_line :: string where
  \<open>sebak_bad_body_line = ''{"type":"sebak-error","error":{"data":{"body":"<html>"}}}''\<close>

definition sebak_no_code_line :: string where
  \<open>sebak_no_code_line =
     ''{"type":"sebak-error","error":{"data":{"body":"{'' @ escaped_quote @ ''message'' @
     escaped_quote @ '':'' @ escaped_quote @ ''x'' @ escaped_quote @ ''}"}}}''\<close>

definition sebak_no_body_line :: string where
  \<open>sebak_no_body_line = ''{"type":"sebak-error","error":{"data":{}}}''\<close>

definition sample_config :: HotterConfig where
  "sample_config =
     \<lparr>Operations = 2,
      InitAccount = ''GDIRF4UWPACXPPI4GW7CMTACTCNDIKJEHZK44RITZB4TD3YUM6CCVNGJ'',
      NodeAddress = ''GDTEPFWEITKFHSUO44NQABY2XHRBBH2UBVGJ2ZJPDREIOL2F6RAEBJE4'',
      BlockHash = ''7Czveh4QkidcwtvpWdp2VQCj4xrGacXtLGRyYXdJa9Ry''\<rparr>"

definition payment_10 :: RecordBody where
  "payment_10 =
     \<lparr>Time = t2019, Elapsed = 10000000000, Error = None, ErrorType = [], RawError = []\<rparr>"

definition payment_60 :: RecordBody where
  "payment_60 =
     \<lparr>Time = t2019 + 60000000000, Elapsed = 60000000000, Error = None, ErrorType = [],
      RawError = []\<rparr>"

definition payment_120 :: RecordBody where
  "payment_120 =
     \<lparr>Time = t2019 + 120000000000, Elapsed = 120000000000, Error = None, ErrorType = [],
      RawError = []\<rparr>"

definition payment_timeout :: RecordBody where
  "payment_timeout =
     \<lparr>Time = t2019, Elapsed = 1, Error = Some ''timeout'', ErrorType = ''timeout'',
      RawError = []\<rparr>"

definition accounts_error :: RecordBody where
  "accounts_error =
     \<lparr>Time = t2019, Elapsed = 5, Error = Some ''timeout'', ErrorType = ''timeout'',
      RawError = []\<rparr>"

definition sebak_body :: "(string \<times> json) list \<Rightarrow> RecordBody" where
  "sebak_body raw =
     \<lparr>Time = 0, Elapsed = 0, Error = Some ''sebak-error'', ErrorType = ''sebak-error'',
      RawError = raw\<rparr>"

definition payment_document :: "string \<Rightarrow> real \<Rightarrow> (string \<times> json) list" where
  "payment_document t el =
     [(''type'', JString ''payment''), (''time'', JString t), (''elapsed'', JNumber el)]"

definition sebak_document :: "(string \<times> json) list \<Rightarrow> (string \<times> json) list" where
  "sebak_document raw = [(''type'', JString ''sebak-error''), (''error'', JObject raw)]"

definition sample_documents :: "(string \<times> json) list" where
  \<open>sample_documents =
     [(config_line,
         JObject [(''type'', JString ''config''),
                  (''config'', JObject [(''operations'', JNumber 2)])]),
      (started_line,
         JObject [(''type'', JString ''started''), (''time'', JString ''2019-01-01T00:00:00Z'')]),
      (bad_started_line,
         JObject [(''type'', JString ''started''), (''time'', JString ''yesterday'')]),
      (untimed_ended_line, JObject [(''type'', JString ''ended'')]),
      (numeric_type_line, JObject [(''type'', JNumber 1)]),
      (payment_10_line, JObject (payment_document ''2019-01-01T00:00:00Z'' 10000000000)),
      (payment_60_line, JObject (payment_document ''2019-01-01T00:01:00Z'' 60000000000)),
      (payment_120_line, JObject (payment_document ''2019-01-01T00:02:00Z'' 120000000000)),
      (payment_timeout_line,
         JObject (payment_document ''2019-01-01T00:00:00Z'' 1 @
                  [(''error'', JString ''timeout''), (''errorType'', JString ''timeout'')])),
      (accounts_error_line,
         JObject [(''type'', JString ''create-accounts''),
                  (''time'', JString ''2019-01-01T00:00:00Z''), (''elapsed'', JNumber 5),
                  (''error'', JString ''timeout''), (''errorType'', JString ''timeout'')]),
      (sebak_702_line,
         JObject (sebak_document [(''data'', JObject [(''body'', JString ''{"code":702}'')])])),
      (sebak_no_data_line, JObject (sebak_document [(''message'', JString ''x'')])),
      (sebak_bad_body_line,
         JObject (sebak_document [(''data'', JObject [(''body'', JString ''<html>'')])])),
      (sebak_no_code_line,
         JObject (sebak_document [(''data'', JObject [(''body'', JString ''{"message":"x"}'')])])),
      (sebak_no_body_line, JObject (sebak_document [(''data'', JObject [])])),
      (''{"code":702}'', JObject [(''code'', JNumber 702)]),
      (''{"message":"x"}'', JObject [(''message'', JString ''x'')]),
      (''[702]'', JArray [JNumber 702])]\<close>

text \<open>
  A text that \<^verbatim>\<open>json.Unmarshal\<close> decodes and reports: the number \<^verbatim>\<open>1e400\<close> does not fit
  a \<^verbatim>\<open>float64\<close> and is stored as nil.
\<close>

definition sample_reported_documents :: "(string \<times> json) list" where
  \<open>sample_reported_documents =
     [(''{"code":702,"x":1e400}'', JObject [(''code'', JNumber 702), (''x'', JNull)])]\<close>

definition sample_payments :: "(string \<times> RecordBody) list" where
  "sample_payments =
     [(payment_10_line, payment_10), (payment_60_line, payment_60),
      (payment_120_line, payment_120), (payment_timeout_line, payment_timeout)]"

definition sample_sebak_errors :: "(string \<times> RecordBody) list" where
  \<open>sample_sebak_errors =
     [(sebak_702_line,
         sebak_body [(''data'', JObject [(''body'', JString ''{"code":702}'')])]),
      (sebak_no_data_line, sebak_body [(''message'', JString ''x'')]),
      (sebak_bad_body_line,
         sebak_body [(''data'', JObject [(''body'', JString ''<html>'')])]),
      (sebak_no_code_line,
         sebak_body [(''data'', JObject [(''body'', JString ''{"message":"x"}'')])]),
      (sebak_no_body_line, sebak_body [(''data'', JObject [])])]\<close>

definition sample_env :: env where
  "sample_env =
     \<lparr>parse_json =
        (\<lambda>s. case map_of sample_documents s of
               Some v \<Rightarrow> Some (v, False)
             | None \<Rightarrow> map_option (\<lambda>v. (v, True)) (map_of sample_reported_documents s)),
      int_out_of_range = (\<lambda>x. - 9223372036854775808),
      parse_time =
        map_of [(''2019-01-01T00:00:00Z'', t2019),
                (''2019-01-01T00:01:00Z'', t2019 + 60000000000),
                (''2019-01-01T00:02:00Z'', t2019 + 120000000000)],
      decode_config =
        (\<lambda>v. if v = JObject [(''operations'', JNumber 2)] then Some sample_config else None),
      decode_create_accounts = map_of [(accounts_error_line, accounts_error)],
      decode_payment = map_of sample_payments,
      decode_sebak_error = map_of sample_sebak_errors\<rparr>"

definition boundaries_init :: boundaries where
  "boundaries_init = \<lparr>started = 0, ended = 0\<rparr>"

definition loaded_init :: loaded where
  "loaded_init = \<lparr>records = [], sebakErrors = Map.empty, bounds = boundaries_init\<rparr>"

section \<open>Properties\<close>

subsection \<open>Decoding one line\<close>


lemma loadLine_type_not_string:
  assumes "unmarshal_map e l = Some d" and "map_of d ''type'' = Some v" and "\<forall>s. v \<noteq> JString s"
  shows "loadLine e b l = Panicked"
  using assms by (cases v) (simp_all add: loadLine_def)

lemma loadLine_started_no_time:
  assumes "unmarshal_map e l = Some d" and "map_of d ''type'' = Some (JString ''started'')"
    and "\<forall>s. map_of d ''time'' \<noteq> Some (JString s)"
  shows "loadLine e b l = Panicked"
proof (cases "map_of d ''time''")
  case None
  then show ?thesis using assms by (simp add: loadLine_def)
next
  case (Some v)
  then show ?thesis using assms by (cases v) (simp_all add: loadLine_def)
qed

lemma loadLine_ended_no_time:
  assumes "unmarshal_map e l = Some d" and "map_of d ''type'' = Some (JString ''ended'')"
    and "\<forall>s. map_of d ''time'' \<noteq> Some (JString s)"
  shows "loadLine e b l = Panicked"
proof (cases "map_of d ''time''")
  case None
  then show ?thesis using assms by (simp add: loadLine_def)
next
  case (Some v)
  then show ?thesis using assms by (cases v) (simp_all add: loadLine_def)
qed

lemma loadLine_started_time:
  assumes "unmarshal_map e l = Some d"
    and "map_of d ''type'' = Some (JString ''started'')"
    and "map_of d ''time'' = Some (JString s)"
  shows "loadLine e b l = Return (None, b\<lparr>started := fst (ParseISO8601 e s)\<rparr>)"
  using assms by (simp add: loadLine_def)

lemma loadLine_ended_time:
  assumes "unmarshal_map e l = Some d"
    and "map_of d ''type'' = Some (JString ''ended'')"
    and "map_of d ''time'' = Some (JString s)"
  shows "loadLine e b l = Return (None, b\<lparr>ended := fst (ParseISO8601 e s)\<rparr>)"
  using assms by (simp add: loadLine_def)

subsection \<open>The sample log, decoded\<close>

lemmas line_defs = config_line_def started_line_def bad_started_line_def untimed_ended_line_def
  numeric_type_line_def payment_10_line_def payment_60_line_def payment_120_line_def
  payment_timeout_line_def accounts_error_line_def sebak_702_line_def sebak_no_data_line_def
  sebak_bad_body_line_def sebak_no_code_line_def sebak_no_body_line_def escaped_quote_def

lemma sample_unmarshal:
  "unmarshal_map sample_env [] = None"
  "unmarshal_map sample_env config_line =
     Some [(''type'', JString ''config''), (''config'', JObject [(''operations'', JNumber 2)])]"
  "unmarshal_map sample_env started_line =
     Some [(''type'', JString ''started''), (''time'', JString ''2019-01-01T00:00:00Z'')]"
  "unmarshal_map sample_env bad_started_line =
     Some [(''type'', JString ''started''), (''time'', JString ''yesterday'')]"
  "unmarshal_map sample_env untimed_ended_line = Some [(''type'', JString ''ended'')]"
  "unmarshal_map sample_env numeric_type_line = Some [(''type'', JNumber 1)]"
  "unmarshal_map sample_env payment_10_line =
     Some (payment_document ''2019-01-01T00:00:00Z'' 10000000000)"
  "unmarshal_map sample_env payment_60_line =
     Some (payment_document ''2019-01-01T00:01:00Z'' 60000000000)"
  "unmarshal_map sample_env payment_120_line =
     Some (payment_document ''2019-01-01T00:02:00Z'' 120000000000)"
  "unmarshal_map sample_env payment_timeout_line =
     Some (payment_document ''2019-01-01T00:00:00Z'' 1 @
           [(''error'', JString ''timeout''), (''errorType'', JString ''timeout'')])"
  "unmarshal_map sample_env accounts_error_line =
     Some [(''type'', JString ''create-accounts''),
           (''time'', JString ''2019-01-01T00:00:00Z''), (''elapsed'', JNumber 5),
           (''error'', JString ''timeout''), (''errorType'', JString ''timeout'')]"
  \<open>unmarshal_map sample_env sebak_702_line =
     Some (sebak_document [(''data'', JObject [(''body'', JString ''{"code":702}'')])])\<close>
  "unmarshal_map sample_env sebak_no_data_line = Some (sebak_document [(''message'', JString ''x'')])"
  "unmarshal_map sample_env sebak_bad_body_line =
     Some (sebak_document [(''data'', JObject [(''body'', JString ''<html>'')])])"
  \<open>unmarshal_map sample_env sebak_no_code_line =
     Some (sebak_document [(''data'', JObject [(''body'', JString ''{"message":"x"}'')])])\<close>
  "unmarshal_map sample_env sebak_no_body_line = Some (sebak_document [(''data'', JObject [])])"
  by (simp_all add: unmarshal_map_def unmarshal_into_map_def sample_env_def sample_documents_def
      sample_reported_documents_def line_defs)

lemma sample_type:
  "map_of (payment_document t el) ''type'' = Some (JString ''payment'')"
  "map_of (payment_document t el @ kvs) ''type'' = Some (JString ''payment'')"
  "map_of (sebak_document raw) ''type'' = Some (JString ''sebak-error'')"
  by (simp_all add: payment_document_def sebak_document_def)

lemma sample_unmarshal_body:
  \<open>unmarshal_into_map sample_env ''{"code":702}'' = ([(''code'', JNumber 702)], False)\<close>
  \<open>unmarshal_into_map sample_env ''{"message":"x"}'' = ([(''message'', JString ''x'')], False)\<close>
  \<open>parse_json sample_env ''<html>'' = None\<close>
  \<open>unmarshal_into_map sample_env ''<html>'' = ([], True)\<close>
  \<open>parse_json sample_env ''[702]'' = Some (JArray [JNumber 702], False)\<close>
  \<open>unmarshal_into_map sample_env ''[702]'' = ([], True)\<close>
  \<open>unmarshal_into_map sample_env ''{"code":702,"x":1e400}'' =
     ([(''code'', JNumber 702), (''x'', JNull)], True)\<close>
  \<open>unmarshal_map sample_env ''{"code":702,"x":1e400}'' = None\<close>
  by (simp_all add: unmarshal_map_def unmarshal_into_map_def sample_env_def sample_documents_def
      sample_reported_documents_def line_defs)

lemma sample_decode:
  "decode_config sample_env (JObject [(''operations'', JNumber 2)]) = Some sample_config"
  "decode_create_accounts sample_env accounts_error_line = Some accounts_error"
  "decode_payment sample_env payment_10_line = Some payment_10"
  "decode_payment sample_env payment_60_line = Some payment_60"
  "decode_payment sample_env payment_120_line = Some payment_120"
  "decode_payment sample_env payment_timeout_line = Some payment_timeout"
  \<open>decode_sebak_error sample_env sebak_702_line =
     Some (sebak_body [(''data'', JObject [(''body'', JString ''{"code":702}'')])])\<close>
  "decode_sebak_error sample_env sebak_no_data_line = Some (sebak_body [(''message'', JString ''x'')])"
  "decode_sebak_error sample_env sebak_bad_body_line =
     Some (sebak_body [(''data'', JObject [(''body'', JString ''<html>'')])])"
  \<open>decode_sebak_error sample_env sebak_no_code_line =
     Some (sebak_body [(''data'', JObject [(''body'', JString ''{"message":"x"}'')])])\<close>
  "decode_sebak_error sample_env sebak_no_body_line = Some (sebak_body [(''data'', JObject [])])"
  by (simp_all add: sample_env_def sample_payments_def sample_sebak_errors_def line_defs)

lemma sample_time:
  "ParseISO8601 sample_env ''2019-01-01T00:00:00Z'' = (t2019, False)"
  "parse_time sample_env ''yesterday'' = None"
  "ParseISO8601 sample_env ''yesterday'' = (0, True)"
  by (simp_all add: ParseISO8601_def sample_env_def)

lemma sample_loadLine:
  "loadLine sample_env b [] = Failed JSONError"
  "loadLine sample_env b config_line = Return (Some (Config sample_config), b)"
  "loadLine sample_env b started_line = Return (None, b\<lparr>started := t2019\<rparr>)"
  "loadLine sample_env b bad_started_line = Return (None, b\<lparr>started := 0\<rparr>)"
  "loadLine sample_env b untimed_ended_line = Panicked"
  "loadLine sample_env b numeric_type_line = Panicked"
  "loadLine sample_env b payment_10_line = Return (Some (Payment payment_10), b)"
  "loadLine sample_env b payment_60_line = Return (Some (Payment payment_60), b)"
  "loadLine sample_env b payment_120_line = Return (Some (Payment payment_120), b)"
  "loadLine sample_env b payment_timeout_line = Return (Some (Payment payment_timeout), b)"
  "loadLine sample_env b accounts_error_line = Return (Some (CreateAccounts accounts_error), b)"
  \<open>loadLine sample_env b sebak_702_line =
     Return (Some (SEBAKError (sebak_body [(''data'', JObject [(''body'', JString ''{"code":702}'')])])), b)\<close>
  "loadLine sample_env b sebak_no_data_line =
     Return (Some (SEBAKError (sebak_body [(''message'', JString ''x'')])), b)"
  "loadLine sample_env b sebak_bad_body_line =
     Return (Some (SEBAKError (sebak_body [(''data'', JObject [(''body'', JString ''<html>'')])])), b)"
  \<open>loadLine sample_env b sebak_no_code_line =
     Return (Some (SEBAKError (sebak_body [(''data'', JObject [(''body'', JString ''{"message":"x"}'')])])), b)\<close>
  "loadLine sample_env b sebak_no_body_line =
     Return (Some (SEBAKError (sebak_body [(''data'', JObject [])])), b)"
  by (simp_all add: loadLine_def sample_unmarshal sample_type sample_decode sample_time)


subsection \<open>The nested error code of a sebak-error record\<close>

lemma count_sebak_error_no_data:
  "map_of raw ''data'' = None \<Longrightarrow> count_sebak_error e errs raw = Return errs"
  by (simp add: count_sebak_error_def)

lemma count_sebak_error_body:
  assumes "map_of raw ''data'' = Some (JObject dm)" and "map_of dm ''body'' = Some (JString j)"
  shows "count_sebak_error e errs raw =
     (case map_of (fst (unmarshal_into_map e j)) ''code'' of
        None \<Rightarrow> Return errs
      | Some (JNumber c) \<Rightarrow> Return (increment errs (float_to_int e c))
      | Some _ \<Rightarrow> Panicked)"
  using assms by (simp add: count_sebak_error_def)

lemma count_sebak_error_data_not_object:
  assumes "map_of raw ''data'' = Some v" and "\<forall>dm. v \<noteq> JObject dm"
  shows "count_sebak_error e errs raw = Panicked"
  using assms by (cases v) (simp_all add: count_sebak_error_def)

lemma count_sebak_error_body_not_string:
  assumes "map_of raw ''data'' = Some (JObject dm)" and "\<forall>j. map_of dm ''body'' \<noteq> Some (JString j)"
  shows "count_sebak_error e errs raw = Panicked"
proof (cases "map_of dm ''body''")
  case None
  then show ?thesis using assms(1) by (simp add: count_sebak_error_def)
next
  case (Some v)
  then show ?thesis using assms by (cases v) (simp_all add: count_sebak_error_def)
qed

lemma parse_json_None_unmarshal:
  "parse_json e j = None \<Longrightarrow> unmarshal_into_map e j = ([], True)"
  by (simp add: unmarshal_into_map_def)

lemma unmarshal_map_into:
  "unmarshal_map e l = Some d \<longleftrightarrow> unmarshal_into_map e l = (d, False)"
  by (cases "unmarshal_into_map e l") (auto simp: unmarshal_map_def)

lemma count_sebak_error_Return:
  assumes "count_sebak_error e errs raw = Return errs'"
  shows "errs' = errs \<or>
     (\<exists>dm j c. map_of raw ''data'' = Some (JObject dm) \<and> map_of dm ''body'' = Some (JString j) \<and>
        map_of (fst (unmarshal_into_map e j)) ''code'' = Some (JNumber c) \<and>
        errs' = increment errs (float_to_int e c))"
  using assms
  by (auto simp: count_sebak_error_def Let_def split: option.splits json.splits)

lemma count_sebak_error_not_Failed: "count_sebak_error e errs raw \<noteq> Failed err"
  by (auto simp: count_sebak_error_def Let_def split: option.splits json.splits)

lemma count_sebak_error_Panicked_indep:
  "count_sebak_error e errs raw = Panicked \<Longrightarrow> count_sebak_error e errs' raw = Panicked"
  by (auto simp: count_sebak_error_def Let_def split: option.splits json.splits)

text \<open>
  The extraction on the raw errors of the sample log. The last two bodies are a JSON
  array, which leaves no map, and an object with a number that is reported as too
  large, whose code is counted although the inner \<^verbatim>\<open>json.Unmarshal\<close> returns an error.
\<close>

lemma sample_count_sebak_error:
  \<open>count_sebak_error sample_env errs
     (RawError (sebak_body [(''data'', JObject [(''body'', JString ''{"code":702}'')])])) =
   Return (increment errs 702)\<close>
  "count_sebak_error sample_env errs (RawError (sebak_body [(''message'', JString ''x'')])) = Return errs"
  "count_sebak_error sample_env errs
     (RawError (sebak_body [(''data'', JObject [(''body'', JString ''<html>'')])])) = Return errs"
  \<open>count_sebak_error sample_env errs
     (RawError (sebak_body [(''data'', JObject [(''body'', JString ''{"message":"x"}'')])])) = Return errs\<close>
  "count_sebak_error sample_env errs (RawError (sebak_body [(''data'', JObject [])])) = Panicked"
  "count_sebak_error sample_env errs [(''data'', JObject [(''body'', JString ''[702]'')])] = Return errs"
  \<open>count_sebak_error sample_env errs
     [(''data'', JObject [(''body'', JString ''{"code":702,"x":1e400}'')])] =
   Return (increment errs 702)\<close>
  by (simp_all add: count_sebak_error_def sebak_body_def sample_unmarshal_body float_to_int_def
      go_int_def)

subsection \<open>One line of the log\<close>

lemma ingest_line_control:
  "loadLine e (bounds st) s = Return (None, b) \<Longrightarrow> ingest_line e st s = Return (st\<lparr>bounds := b\<rparr>)"
  by (simp add: ingest_line_def)

lemma ingest_line_payment:
  "loadLine e (bounds st) s = Return (Some (Payment p), b) \<Longrightarrow>
   ingest_line e st s = Return (st\<lparr>records := records st @ [Payment p], bounds := b\<rparr>)"
  by (simp add: ingest_line_def)

lemma ingest_line_config:
  "loadLine e (bounds st) s = Return (Some (Config c), b) \<Longrightarrow>
   ingest_line e st s = Return (st\<lparr>bounds := b\<rparr>)"
  by (simp add: ingest_line_def)

lemma ingest_line_create_accounts:
  "loadLine e (bounds st) s = Return (Some (CreateAccounts r), b) \<Longrightarrow>
   ingest_line e st s = Return (st\<lparr>bounds := b\<rparr>)"
  by (simp add: ingest_line_def)

lemma ingest_line_sebak_error:
  "loadLine e (bounds st) s = Return (Some (SEBAKError sr), b) \<Longrightarrow>
   ingest_line e st s =
     (case count_sebak_error e (sebakErrors st) (RawError sr) of
        Return errs \<Rightarrow> Return (st\<lparr>sebakErrors := errs, bounds := b\<rparr>)
      | Failed err \<Rightarrow> Failed err
      | Panicked \<Rightarrow> Panicked)"
  by (simp add: ingest_line_def)

lemma ingest_line_not_payment:
  assumes "loadLine e (bounds st) s = Return (ro, b)"
    and "\<forall>r. ro = Some r \<longrightarrow> GetType r \<noteq> ''payment''"
    and "ingest_line e st s = Return st'"
  shows "records st' = records st \<and> bounds st' = b"
proof (cases ro)
  case None
  then show ?thesis using assms ingest_line_control[of e st s b] by auto
next
  case (Some r)
  show ?thesis
  proof (cases r)
    case (Config c)
    then show ?thesis using Some assms ingest_line_config[of e st s c b] by auto
  next
    case (CreateAccounts x)
    then show ?thesis using Some assms ingest_line_create_accounts[of e st s x b] by auto
  next
    case (Payment p)
    then show ?thesis using Some assms(2) by simp
  next
    case (SEBAKError sr)
    then show ?thesis using Some assms ingest_line_sebak_error[of e st s sr b]
      by (auto split: result.splits)
  qed
qed

text \<open>
  Where the extraction is tolerant: when the raw error has no \<^verbatim>\<open>data\<close> key, or
  \<^verbatim>\<open>data\<close> is an object whose \<^verbatim>\<open>body\<close> is a string that leaves a map without the key
  \<^verbatim>\<open>code\<close> (the string is not valid JSON, or is JSON but not an object, or is an object
  without \<^verbatim>\<open>code\<close>), the line is ingested and the counters stay as they were.
\<close>

lemma sebak_error_tolerated:
  assumes "loadLine e (bounds st) s = Return (Some (SEBAKError sr), b)"
    and "map_of (RawError sr) ''data'' = None
         \<or> (\<exists>dm j. map_of (RawError sr) ''data'' = Some (JObject dm) \<and>
                map_of dm ''body'' = Some (JString j) \<and>
                map_of (fst (unmarshal_into_map e j)) ''code'' = None)"
  shows "ingest_line e st s = Return (st\<lparr>bounds := b\<rparr>)"
proof -
  have "count_sebak_error e (sebakErrors st) (RawError sr) = Return (sebakErrors st)"
    using assms(2)
  proof (elim disjE exE conjE)
    assume "map_of (RawError sr) ''data'' = None"
    then show ?thesis by (rule count_sebak_error_no_data)
  next
    fix dm j
    assume "map_of (RawError sr) ''data'' = Some (JObject dm)" "map_of dm ''body'' = Some (JString j)"
      "map_of (fst (unmarshal_into_map e j)) ''code'' = None"
    then show ?thesis
      by (simp add: count_sebak_error_body)
  qed
  then show ?thesis
    using assms(1) by (simp add: ingest_line_sebak_error)
qed

text \<open>The counters change only when every step has succeeded.\<close>

lemma sebak_error_counted:
  assumes "loadLine e (bounds st) s = Return (Some (SEBAKError sr), b)"
    and "ingest_line e st s = Return st'" and "sebakErrors st' \<noteq> sebakErrors st"
  shows "\<exists>dm j c. map_of (RawError sr) ''data'' = Some (JObject dm) \<and>
           map_of dm ''body'' = Some (JString j) \<and>
           map_of (fst (unmarshal_into_map e j)) ''code'' = Some (JNumber c) \<and>
           st' = st\<lparr>sebakErrors := increment (sebakErrors st) (float_to_int e c), bounds := b\<rparr>"
proof -
  obtain errs where c: "count_sebak_error e (sebakErrors st) (RawError sr) = Return errs"
    and st': "st' = st\<lparr>sebakErrors := errs, bounds := b\<rparr>"
    using assms(1,2) by (auto simp: ingest_line_sebak_error split: result.splits)
  from assms(3) st' have "errs \<noteq> sebakErrors st" by auto
  with count_sebak_error_Return[OF c] st' show ?thesis by blast
qed

text \<open>
  Where it is not: a \<^verbatim>\<open>data\<close> that is not an object, and a \<^verbatim>\<open>data\<close> object whose
  \<^verbatim>\<open>body\<close> is missing or not a string, end the ingestion of the line with a panic.
\<close>

lemma sebak_error_panics:
  assumes "loadLine e (bounds st) s = Return (Some (SEBAKError sr), b)"
    and "(\<exists>v. map_of (RawError sr) ''data'' = Some v \<and> (\<forall>dm. v \<noteq> JObject dm))
         \<or> (\<exists>dm. map_of (RawError sr) ''data'' = Some (JObject dm) \<and>
                (\<forall>j. map_of dm ''body'' \<noteq> Some (JString j)))"
  shows "ingest_line e st s = Panicked"
proof -
  have "count_sebak_error e (sebakErrors st) (RawError sr) = Panicked"
    using assms(2) count_sebak_error_data_not_object count_sebak_error_body_not_string
    by blast
  then show ?thesis
    using assms(1) by (simp add: ingest_line_sebak_error)
qed

lemma sample_ingest_sebak_error:
  "ingest_line sample_env loaded_init sebak_no_data_line = Return loaded_init"
  "ingest_line sample_env loaded_init sebak_bad_body_line = Return loaded_init"
  "ingest_line sample_env loaded_init sebak_no_code_line = Return loaded_init"
  "ingest_line sample_env loaded_init sebak_702_line =
     Return (loaded_init\<lparr>sebakErrors := [702 \<mapsto> 1]\<rparr>)"
  "ingest_line sample_env loaded_init sebak_no_body_line = Panicked"
  by (simp_all add: ingest_line_def sample_loadLine sample_count_sebak_error loaded_init_def
      increment_def)

text \<open>
  C1 fails on the code. The extraction tests for the key \<^verbatim>\<open>data\<close> (line 164) and for the
  key \<^verbatim>\<open>code\<close> (line 172), but nothing tests for \<^verbatim>\<open>body\<close>: line 168 asserts
  \<^verbatim>\<open>.(string)\<close> on whatever \<^verbatim>\<open>data\<close> holds under that key. The sample line
  \<^verbatim>\<open>{"type":"sebak-error","error":{"data":{}}}\<close> decodes without an error to a sebak-error
  record whose raw error has \<^verbatim>\<open>data\<close> but no \<^verbatim>\<open>body\<close>, a missing key on the way to the
  code. Instead of recording no code and going on, the ingestion of the line panics,
  and a run over a log that holds the line ends with a panic and exit status 2, the
  payment that follows notwithstanding.
\<close>

theorem sebak_error_without_body_panics:
  "loadLine sample_env (bounds loaded_init) sebak_no_body_line =
     Return (Some (SEBAKError (sebak_body [(''data'', JObject [])])), boundaries_init)
   \<and> map_of (RawError (sebak_body [(''data'', JObject [])])) ''data'' = Some (JObject [])
   \<and> map_of [] ''body'' = (None :: json option)
   \<and> count_sebak_error sample_env (sebakErrors loaded_init)
        (RawError (sebak_body [(''data'', JObject [])])) = Panicked
   \<and> ingest_line sample_env loaded_init sebak_no_body_line = Panicked
   \<and> runResult sample_env True [config_line, started_line, sebak_no_body_line, payment_10_line] =
       ExitPanic
   \<and> exit_status
        (runResult sample_env True [config_line, started_line, sebak_no_body_line, payment_10_line]) = 2"
proof -
  have l: "loadLine sample_env (bounds loaded_init) sebak_no_body_line =
     Return (Some (SEBAKError (sebak_body [(''data'', JObject [])])), boundaries_init)"
    by (simp add: sample_loadLine loaded_init_def)
  have d: "map_of (RawError (sebak_body [(''data'', JObject [])])) ''data'' = Some (JObject [])"
    by (simp add: sebak_body_def)
  have c: "count_sebak_error sample_env (sebakErrors loaded_init)
        (RawError (sebak_body [(''data'', JObject [])])) = Panicked"
    by (rule count_sebak_error_body_not_string[OF d]) simp
  have i: "ingest_line sample_env loaded_init sebak_no_body_line = Panicked"
    using c by (simp add: ingest_line_sebak_error[OF l])
  have r: "runResult sample_env True [config_line, started_line, sebak_no_body_line, payment_10_line] =
       ExitPanic"
    by (simp add: runResult_def headLine_def sample_loadLine ingest_line_def
        sample_count_sebak_error)
  show ?thesis using l d c i r by simp
qed

text \<open>
  C7. A line tagged \<^verbatim>\<open>started\<close> or \<^verbatim>\<open>ended\<close> whose \<^verbatim>\<open>time\<close> is a string that does
  not parse as ISO-8601 does not abort: \<^verbatim>\<open>loadLine\<close> returns no record and no error, and
  the boundary of that tag is assigned the zero time (the other one is left as it was).
\<close>

theorem loadLine_bad_time_is_zero:
  assumes "unmarshal_map e l = Some d"
    and "map_of d ''type'' = Some (JString t)"
    and "t = ''started'' \<or> t = ''ended''"
    and "map_of d ''time'' = Some (JString s)"
    and "parse_time e s = None"
  shows "loadLine e b l = Return (None, if t = ''started'' then b\<lparr>started := 0\<rparr> else b\<lparr>ended := 0\<rparr>)"
proof -
  have z: "fst (ParseISO8601 e s) = 0"
    using assms(5) by (simp add: ParseISO8601_def)
  from assms(3) show ?thesis
  proof
    assume "t = ''started''"
    then show ?thesis using assms(1,2,4) z loadLine_started_time[of e l d s b] by simp
  next
    assume "t = ''ended''"
    then show ?thesis using assms(1,2,4) z loadLine_ended_time[of e l d s b] by simp
  qed
qed

text \<open>
  The theorem at the sample line whose time is \<^verbatim>\<open>yesterday\<close>, with both boundaries set
  before: \<open>started\<close> is reset to zero.
\<close>

theorem loadLine_bad_time_is_zero_witness:
  "unmarshal_map sample_env bad_started_line =
     Some [(''type'', JString ''started''), (''time'', JString ''yesterday'')]
   \<and> parse_time sample_env ''yesterday'' = None
   \<and> loadLine sample_env \<lparr>started = t2019, ended = t2019\<rparr> bad_started_line =
       Return (None, \<lparr>started = 0, ended = t2019\<rparr>)"
  using loadLine_bad_time_is_zero[of sample_env bad_started_line
      "[(''type'', JString ''started''), (''time'', JString ''yesterday'')]"
      "''started''" "''yesterday''" "\<lparr>started = t2019, ended = t2019\<rparr>"]
  by (simp add: sample_unmarshal sample_time)

text \<open>
  C10. A line that is a JSON object whose \<^verbatim>\<open>type\<close> is present but not a string, and a
  \<^verbatim>\<open>started\<close> or \<^verbatim>\<open>ended\<close> line whose \<^verbatim>\<open>time\<close> is missing or not a string, make
  \<^verbatim>\<open>loadLine\<close> panic on the type assertion \<^verbatim>\<open>.(string)\<close>; it does not return a decode
  error.
\<close>

theorem loadLine_failed_assertion_panics:
  assumes "unmarshal_map e l = Some d"
    and "(\<exists>v. map_of d ''type'' = Some v \<and> (\<forall>s. v \<noteq> JString s))
         \<or> ((map_of d ''type'' = Some (JString ''started'') \<or> map_of d ''type'' = Some (JString ''ended''))
             \<and> (\<forall>s. map_of d ''time'' \<noteq> Some (JString s)))"
  shows "loadLine e b l = Panicked \<and> (\<forall>err. loadLine e b l \<noteq> Failed err)"
proof -
  have "loadLine e b l = Panicked"
    using assms loadLine_type_not_string loadLine_started_no_time loadLine_ended_no_time
    by blast
  then show ?thesis by simp
qed

text \<open>
  The theorem at the sample lines \<^verbatim>\<open>{"type":1}\<close> and \<^verbatim>\<open>{"type":"ended"}\<close>.
\<close>

theorem loadLine_failed_assertion_panics_witness:
  "unmarshal_map sample_env numeric_type_line = Some [(''type'', JNumber 1)]
   \<and> loadLine sample_env boundaries_init numeric_type_line = Panicked
   \<and> unmarshal_map sample_env untimed_ended_line = Some [(''type'', JString ''ended'')]
   \<and> loadLine sample_env boundaries_init untimed_ended_line = Panicked"
  using loadLine_failed_assertion_panics[of sample_env numeric_type_line "[(''type'', JNumber 1)]"
      boundaries_init]
    loadLine_failed_assertion_panics[of sample_env untimed_ended_line "[(''type'', JString ''ended'')]"
      boundaries_init]
  by (simp add: sample_unmarshal)

subsection \<open>Records that are not payments\<close>

lemma aggregate_records_snoc:
  "aggregate_records (rs @ [r]) = aggregate_record (aggregate_records rs) r"
  by (simp add: aggregate_records_def)

lemma errorTypes_aggregate_record:
  "errorTypes (aggregate_record a r) =
     (if GetError r = None then errorTypes a else increment (errorTypes a) (GetErrorType r))"
  by (simp add: aggregate_record_def Let_def)

text \<open>
  C4. When a line is a control event or decodes to a record whose type is not
  \<^verbatim>\<open>payment\<close>, and the line is ingested, the payment records are the same list as
  before: their number (the total record count of the report), every bucket count of
  the histogram and the finalized histogram are unchanged.
\<close>

theorem non_payment_leaves_count_and_histogram:
  assumes "loadLine e (bounds st) s = Return (ro, b)"
    and "\<forall>r. ro = Some r \<longrightarrow> GetType r \<noteq> ''payment''"
    and "ingest_line e st s = Return st'"
  shows "records st' = records st
       \<and> length (records st') = length (records st)
       \<and> els (aggregate_records (records st')) = els (aggregate_records (records st))
       \<and> finalize (aggregate_records (records st')) = finalize (aggregate_records (records st))"
  using ingest_line_not_payment[OF assms] by simp

text \<open>
  The theorem at the create-accounts line of the sample log, ingested after one payment.
\<close>

theorem non_payment_leaves_count_and_histogram_witness:
  "loadLine sample_env (bounds (loaded_init\<lparr>records := [Payment payment_10]\<rparr>)) accounts_error_line =
     Return (Some (CreateAccounts accounts_error), boundaries_init)
   \<and> GetType (CreateAccounts accounts_error) \<noteq> ''payment''
   \<and> ingest_line sample_env (loaded_init\<lparr>records := [Payment payment_10]\<rparr>) accounts_error_line =
       Return (loaded_init\<lparr>records := [Payment payment_10]\<rparr>)
   \<and> records (loaded_init\<lparr>records := [Payment payment_10]\<rparr>) = [Payment payment_10]"
proof -
  let ?st = "loaded_init\<lparr>records := [Payment payment_10]\<rparr>"
  have l: "loadLine sample_env (bounds ?st) accounts_error_line =
     Return (Some (CreateAccounts accounts_error), boundaries_init)"
    by (simp add: sample_loadLine loaded_init_def)
  have t: "\<forall>r. Some (CreateAccounts accounts_error) = Some r \<longrightarrow> GetType r \<noteq> ''payment''"
    by simp
  have "ingest_line sample_env ?st accounts_error_line = Return (?st\<lparr>bounds := boundaries_init\<rparr>)"
    by (rule ingest_line_create_accounts[OF l])
  then have i: "ingest_line sample_env ?st accounts_error_line = Return ?st"
    by (simp add: loaded_init_def)
  show ?thesis
    using non_payment_leaves_count_and_histogram[OF l t i] l i by simp
qed

text \<open>
  C2, as amended. Only payment records reach the error types: ingesting a record of any
  other type, with or without an error, leaves \<^verbatim>\<open>errorTypes\<close> as computed from the
  payment records unchanged; ingesting a payment record appends it to the records, and
  \<^verbatim>\<open>errorTypes\<close> then has the entry of its error type incremented by one when the record
  carries an error, and is unchanged when it carries none.
\<close>

theorem error_types_count_payments_only:
  "(loadLine e (bounds st) s = Return (Some r, b) \<and> GetType r \<noteq> ''payment'' \<and>
      ingest_line e st s = Return st'
    \<longrightarrow> errorTypes (aggregate_records (records st')) = errorTypes (aggregate_records (records st)))
   \<and> (loadLine e (bounds st) s = Return (Some (Payment p), b)
    \<longrightarrow> ingest_line e st s = Return (st\<lparr>records := records st @ [Payment p], bounds := b\<rparr>)
      \<and> errorTypes (aggregate_records (records st @ [Payment p])) =
          (if Error p = None then errorTypes (aggregate_records (records st))
           else increment (errorTypes (aggregate_records (records st))) (ErrorType p)))"
proof (intro conjI impI)
  assume h: "loadLine e (bounds st) s = Return (Some r, b) \<and> GetType r \<noteq> ''payment'' \<and>
      ingest_line e st s = Return st'"
  then have "records st' = records st"
    using ingest_line_not_payment[of e st s "Some r" b st'] by simp
  then show "errorTypes (aggregate_records (records st')) = errorTypes (aggregate_records (records st))"
    by simp
next
  assume "loadLine e (bounds st) s = Return (Some (Payment p), b)"
  then show "ingest_line e st s = Return (st\<lparr>records := records st @ [Payment p], bounds := b\<rparr>)"
    by (rule ingest_line_payment)
next
  show "errorTypes (aggregate_records (records st @ [Payment p])) =
          (if Error p = None then errorTypes (aggregate_records (records st))
           else increment (errorTypes (aggregate_records (records st))) (ErrorType p))"
    by (simp add: aggregate_records_snoc errorTypes_aggregate_record GetError_def GetErrorType_def)
qed


subsection \<open>The statistics of sample payments\<close>

lemma agg_one:
  "aggregate_records [Payment payment_10] =
     \<lparr>els = [0 \<mapsto> 1], maxElapsedTime = 10000000000, minElapsedTime = 10000000000,
      countError = 0, errorTypes = Map.empty\<rparr>"
  by (simp add: aggregate_records_def aggregate_record_def aggregator_init_def Let_def
      GetElapsed_def GetError_def payment_10_def go_int_def step_def increment_def)

lemma fin_one:
  "finalize \<lparr>els = [0 \<mapsto> 1], maxElapsedTime = 10000000000, minElapsedTime = 10000000000,
      countError = 0, errorTypes = Map.empty\<rparr> = ([0 \<mapsto> 1, 50000000000 \<mapsto> 0], [0, 50000000000])"
  by (simp add: finalize_def step_def go_int_def)




subsection \<open>The outcome of a run\<close>

lemma runResult_config:
  assumes "loadLine e \<lparr>started = 0, ended = 0\<rparr> (headLine ls) = Return (Some (Config c), b)"
  shows "runResult e flagBrief ls =
     (case load_records e \<lparr>records = [], sebakErrors = Map.empty, bounds = b\<rparr> (drop 1 ls) of
        Failed err \<Rightarrow> printError err
      | Panicked \<Rightarrow> ExitPanic
      | Return st \<Rightarrow>
          if length (records st) < 1 then ExitNoRecords else build_report flagBrief c st)"
  using assms by (simp add: runResult_def printError_def)

lemma runResult_not_config:
  assumes "\<forall>c b. loadLine e \<lparr>started = 0, ended = 0\<rparr> (headLine ls) \<noteq> Return (Some (Config c), b)"
  shows "runResult e flagBrief ls =
     (case loadLine e \<lparr>started = 0, ended = 0\<rparr> (headLine ls) of
        Failed err \<Rightarrow> ExitFatal err | _ \<Rightarrow> ExitPanic)"
proof (cases "loadLine e \<lparr>started = 0, ended = 0\<rparr> (headLine ls)")
  case (Return p)
  obtain ro b where p: "p = (ro, b)" by (cases p)
  show ?thesis
  proof (cases ro)
    case None
    then show ?thesis using Return p by (simp add: runResult_def printError_def)
  next
    case (Some r)
    then show ?thesis using Return p assms by (cases r) (simp_all add: runResult_def printError_def)
  qed
next
  case (Failed err)
  then show ?thesis by (simp add: runResult_def printError_def)
next
  case Panicked
  then show ?thesis by (simp add: runResult_def printError_def)
qed

lemma runResult_ExitReport:
  assumes "runResult e flagBrief ls = ExitReport rep"
  shows "\<exists>c b st. loadLine e \<lparr>started = 0, ended = 0\<rparr> (headLine ls) = Return (Some (Config c), b) \<and>
           load_records e \<lparr>records = [], sebakErrors = Map.empty, bounds = b\<rparr> (drop 1 ls) = Return st \<and>
           records st \<noteq> [] \<and> build_report flagBrief c st = ExitReport rep"
proof (cases "\<exists>c b. loadLine e \<lparr>started = 0, ended = 0\<rparr> (headLine ls) = Return (Some (Config c), b)")
  case True
  then obtain c b where
    l: "loadLine e \<lparr>started = 0, ended = 0\<rparr> (headLine ls) = Return (Some (Config c), b)"
    by blast
  show ?thesis
    using assms l unfolding runResult_config[OF l]
    by (auto simp: printError_def split: result.splits if_splits)
next
  case False
  then have "runResult e flagBrief ls =
     (case loadLine e \<lparr>started = 0, ended = 0\<rparr> (headLine ls) of
        Failed err \<Rightarrow> ExitFatal err | _ \<Rightarrow> ExitPanic)"
    using runResult_not_config[of e ls flagBrief] by blast
  with assms show ?thesis by (auto split: result.splits)
qed

lemma time_Sub_zero: "time_Sub t u = 0 \<longleftrightarrow> t = u"
  by (simp add: time_Sub_def Let_def)

lemma Seconds_zero: "Seconds d = 0 \<longleftrightarrow> d = 0"
  by (simp add: Seconds_def)

lemma build_report_fields:
  assumes "build_report flagBrief c st = ExitReport rep"
  shows "operations rep = int (length (records st)) * Operations c"
    and "requests rep = int (length (records st))"
    and "time_started rep = started (bounds st)"
    and "time_ended rep = GetTime (last (records st))"
    and "expected_ops rep =
           fdiv (of_int (operations rep)) (Seconds (time_Sub (time_ended rep) (time_started rep)))"
    and "real_ops rep =
           fdiv (of_int ((requests rep - error_count rep) * Operations c))
             (Seconds (time_Sub (time_ended rep) (time_started rep)))"
  using assms
  by (auto simp: build_report_def Let_def split: prod.splits if_splits)

lemma loadLine_keeps_started:
  assumes "loadLine e b l = Return (ro, b')"
    and "\<forall>d. unmarshal_map e l = Some d \<longrightarrow> map_of d ''type'' \<noteq> Some (JString ''started'')"
  shows "started b' = started b"
proof -
  obtain d where d: "unmarshal_map e l = Some d"
    using assms(1) by (cases "unmarshal_map e l") (simp_all add: loadLine_def)
  obtain v where v: "map_of d ''type'' = Some v"
    using assms(1) d by (cases "map_of d ''type''") (simp_all add: loadLine_def)
  obtain t where t: "v = JString t"
    using assms(1) d v by (cases v) (simp_all add: loadLine_def)
  have ns: "t \<noteq> ''started''"
    using assms(2) d v t by simp
  show ?thesis
  proof (cases "t = ''ended''")
    case True
    then show ?thesis
      using assms(1) d v t
      by (cases "map_of d ''time''") (auto simp: loadLine_def split: json.splits)
  next
    case False
    then show ?thesis
      using assms(1) d v t ns
      by (auto simp: loadLine_def split: if_splits option.splits)
  qed
qed

lemma ingest_line_bounds:
  assumes "ingest_line e st s = Return st'"
  shows "\<exists>ro. loadLine e (bounds st) s = Return (ro, bounds st')"
proof (cases "loadLine e (bounds st) s")
  case (Return p)
  obtain ro b where p: "p = (ro, b)" by (cases p)
  show ?thesis
  proof (cases ro)
    case None
    then show ?thesis using assms Return p by (auto simp: ingest_line_def)
  next
    case (Some r)
    then show ?thesis using assms Return p
      by (cases r) (auto simp: ingest_line_def split: result.splits)
  qed
next
  case (Failed err)
  then show ?thesis using assms by (simp add: ingest_line_def)
next
  case Panicked
  then show ?thesis using assms by (simp add: ingest_line_def)
qed

lemma load_records_keeps_started:
  assumes "load_records e st ss = Return st'"
    and "\<forall>l \<in> set ss. \<forall>d. unmarshal_map e l = Some d \<longrightarrow>
           map_of d ''type'' \<noteq> Some (JString ''started'')"
  shows "started (bounds st') = started (bounds st)"
  using assms
proof (induction ss arbitrary: st)
  case Nil
  then show ?case by simp
next
  case (Cons s ss)
  from Cons.prems(1) obtain st1 where
    i: "ingest_line e st s = Return st1" and r: "load_records e st1 ss = Return st'"
    by (auto split: result.splits)
  from ingest_line_bounds[OF i] obtain ro where
    "loadLine e (bounds st) s = Return (ro, bounds st1)" by blast
  then have "started (bounds st1) = started (bounds st)"
    using loadLine_keeps_started Cons.prems(2) by simp
  moreover have "started (bounds st') = started (bounds st1)"
    using Cons.IH[OF r] Cons.prems(2) by simp
  ultimately show ?case by simp
qed

lemma runResult_without_started:
  assumes "runResult e flagBrief ls = ExitReport rep"
    and "\<forall>l \<in> set ls. \<forall>d. unmarshal_map e l = Some d \<longrightarrow>
           map_of d ''type'' \<noteq> Some (JString ''started'')"
  shows "time_started rep = 0"
proof -
  from runResult_ExitReport[OF assms(1)] obtain c b st where
    l: "loadLine e \<lparr>started = 0, ended = 0\<rparr> (headLine ls) = Return (Some (Config c), b)"
    and r: "load_records e \<lparr>records = [], sebakErrors = Map.empty, bounds = b\<rparr> (drop 1 ls) = Return st"
    and br: "build_report flagBrief c st = ExitReport rep"
    by blast
  have h: "\<forall>d. unmarshal_map e (headLine ls) = Some d \<longrightarrow>
             map_of d ''type'' \<noteq> Some (JString ''started'')"
  proof (cases ls)
    case Nil
    show ?thesis
    proof (intro allI impI)
      fix d assume d: "unmarshal_map e (headLine ls) = Some d"
      show "map_of d ''type'' \<noteq> Some (JString ''started'')"
      proof
        assume "map_of d ''type'' = Some (JString ''started'')"
        then have "loadLine e \<lparr>started = 0, ended = 0\<rparr> (headLine ls) \<noteq> Return (Some (Config c), b)"
          using d by (cases "map_of d ''time''") (auto simp: loadLine_def split: json.splits)
        then show False using l by simp
      qed
    qed
  next
    case (Cons x xs)
    then show ?thesis using assms(2) by (simp add: headLine_def)
  qed
  have "started b = 0"
    using loadLine_keeps_started[OF l h] by simp
  moreover have "\<forall>l \<in> set (drop 1 ls). \<forall>d. unmarshal_map e l = Some d \<longrightarrow>
           map_of d ''type'' \<noteq> Some (JString ''started'')"
    using assms(2) by (meson in_set_dropD)
  then have "started (bounds st) = started b"
    using load_records_keeps_started[OF r] by simp
  ultimately show ?thesis
    using build_report_fields(3)[OF br] by simp
qed

text \<open>
  C6, as amended. The two throughput figures are computed without a guard: each is the
  float quotient of an operation count by \<^verbatim>\<open>totalSeconds\<close>, the seconds between
  \<^verbatim>\<open>started\<close> and the time of the last payment record. Whenever a report is produced
  and these two times are equal, the divisor is zero, the division is carried out all the
  same and neither figure is a finite number (Go's float division does not panic: the
  quotient is an infinity or NaN); when the two times differ, both figures are finite.
  When no line of the log is a \<^verbatim>\<open>started\<close> line, \<^verbatim>\<open>started\<close> is the zero time, and the
  time base is zero only if the last payment carries the zero time as well.
\<close>

theorem ops_division_is_unguarded:
  assumes "runResult e flagBrief ls = ExitReport rep"
  shows "expected_ops rep =
           fdiv (of_int (operations rep)) (Seconds (time_Sub (time_ended rep) (time_started rep)))
       \<and> (time_ended rep = time_started rep \<longrightarrow>
            (\<forall>x. expected_ops rep \<noteq> Finite x) \<and> (\<forall>x. real_ops rep \<noteq> Finite x))
       \<and> (time_ended rep \<noteq> time_started rep \<longrightarrow>
            (\<exists>x. expected_ops rep = Finite x) \<and> (\<exists>x. real_ops rep = Finite x))
       \<and> ((\<forall>l \<in> set ls. \<forall>d. unmarshal_map e l = Some d \<longrightarrow>
              map_of d ''type'' \<noteq> Some (JString ''started''))
          \<longrightarrow> time_started rep = 0)"
proof -
  from runResult_ExitReport[OF assms] obtain c st where
    b: "build_report flagBrief c st = ExitReport rep" by blast
  note f = build_report_fields[OF b]
  have z: "Seconds (time_Sub (time_ended rep) (time_started rep)) = 0 \<longleftrightarrow>
             time_ended rep = time_started rep"
    by (simp add: Seconds_zero time_Sub_zero)
  show ?thesis
  proof (intro conjI impI)
    show "expected_ops rep =
           fdiv (of_int (operations rep)) (Seconds (time_Sub (time_ended rep) (time_started rep)))"
      by (rule f(5))
  next
    assume "time_ended rep = time_started rep"
    then have "Seconds (time_Sub (time_ended rep) (time_started rep)) = 0" using z by simp
    then show "\<forall>x. expected_ops rep \<noteq> Finite x" "\<forall>x. real_ops rep \<noteq> Finite x"
      using f(5) f(6) by (simp_all add: fdiv_def)
  next
    assume "time_ended rep \<noteq> time_started rep"
    then have "Seconds (time_Sub (time_ended rep) (time_started rep)) \<noteq> 0" using z by simp
    then show "\<exists>x. expected_ops rep = Finite x" "\<exists>x. real_ops rep = Finite x"
      using f(5) f(6) by (simp_all add: fdiv_def)
  next
    assume "\<forall>l \<in> set ls. \<forall>d. unmarshal_map e l = Some d \<longrightarrow>
              map_of d ''type'' \<noteq> Some (JString ''started'')"
    then show "time_started rep = 0"
      using runResult_without_started[OF assms] by simp
  qed
qed

lemma sample_times:
  "Time payment_10 = t2019"
  "Time payment_60 = t2019 + 60000000000"
  "Time payment_120 = t2019 + 120000000000"
  "Time payment_timeout = t2019"
  by (simp_all add: payment_10_def payment_60_def payment_120_def payment_timeout_def)

text \<open>
  C6 as stated fails: a log whose only payment carries the time of the \<^verbatim>\<open>started\<close> line
  has a time base of zero seconds, and both throughput figures are the quotient \<open>2 / 0\<close>,
  positive infinity.
\<close>

theorem ops_division_by_zero_counterexample:
  "runResult sample_env True [config_line, started_line, payment_10_line] =
     ExitReport
       \<lparr>requests = 1, operations = 2, error_count = 0, error_rate = 0,
        max_elapsed = 1, min_elapsed = 1,
        distribution = [(0, 1), (50000000000, 0)],
        time_started = t2019, time_ended = t2019,
        expected_ops = PosInf, real_ops = PosInf,
        error_types = Map.empty, sebak_errors = Map.empty\<rparr>"
proof -
  have l: "loadLine sample_env \<lparr>started = 0, ended = 0\<rparr>
             (headLine [config_line, started_line, payment_10_line]) =
           Return (Some (Config sample_config), \<lparr>started = 0, ended = 0\<rparr>)"
    by (simp add: headLine_def sample_loadLine)
  show ?thesis
    unfolding runResult_config[OF l]
    by (simp add: ingest_line_def sample_loadLine build_report_def agg_one fin_one Let_def
        GetTime_def sample_times time_Sub_def Seconds_def fdiv_def sample_config_def)
qed


subsection \<open>Logs without payment records\<close>

lemma ingest_line_harmless:
  assumes "loadLine e (bounds st) s = Return (ro, b)"
    and "\<forall>r. ro = Some r \<longrightarrow> GetType r \<noteq> ''payment'' \<and>
           (\<forall>sr. r = SEBAKError sr \<longrightarrow> count_sebak_error e Map.empty (RawError sr) \<noteq> Panicked)"
  shows "\<exists>st'. ingest_line e st s = Return st' \<and> records st' = records st"
proof (cases ro)
  case None
  then show ?thesis using assms(1) by (simp add: ingest_line_control)
next
  case (Some r)
  show ?thesis
  proof (cases r)
    case (Config c)
    then show ?thesis using Some assms(1) by (simp add: ingest_line_config)
  next
    case (CreateAccounts x)
    then show ?thesis using Some assms(1) by (simp add: ingest_line_create_accounts)
  next
    case (Payment p)
    then show ?thesis using Some assms(2) by simp
  next
    case (SEBAKError sr)
    have "count_sebak_error e Map.empty (RawError sr) \<noteq> Panicked"
      using SEBAKError Some assms(2) by simp
    then have "count_sebak_error e (sebakErrors st) (RawError sr) \<noteq> Panicked"
      using count_sebak_error_Panicked_indep by blast
    then obtain errs where "count_sebak_error e (sebakErrors st) (RawError sr) = Return errs"
      using count_sebak_error_not_Failed[of e "sebakErrors st" "RawError sr"]
      by (cases "count_sebak_error e (sebakErrors st) (RawError sr)") auto
    then show ?thesis
      using SEBAKError Some assms(1) by (simp add: ingest_line_sebak_error)
  qed
qed

lemma load_records_harmless:
  assumes "\<forall>l \<in> set ss. \<forall>b. \<exists>ro b'. loadLine e b l = Return (ro, b') \<and>
             (\<forall>r. ro = Some r \<longrightarrow> GetType r \<noteq> ''payment'' \<and>
                (\<forall>sr. r = SEBAKError sr \<longrightarrow>
                   count_sebak_error e Map.empty (RawError sr) \<noteq> Panicked))"
  shows "\<exists>st'. load_records e st ss = Return st' \<and> records st' = records st"
  using assms
proof (induction ss arbitrary: st)
  case Nil
  show ?case by simp
next
  case (Cons s ss)
  from Cons.prems obtain ro b' where
    l: "loadLine e (bounds st) s = Return (ro, b')"
    and h: "\<forall>r. ro = Some r \<longrightarrow> GetType r \<noteq> ''payment'' \<and>
           (\<forall>sr. r = SEBAKError sr \<longrightarrow> count_sebak_error e Map.empty (RawError sr) \<noteq> Panicked)"
    by (meson list.set_intros(1))
  from ingest_line_harmless[OF l h] obtain st1 where
    i: "ingest_line e st s = Return st1" and r: "records st1 = records st" by blast
  from Cons.prems have "\<forall>l \<in> set ss. \<forall>b. \<exists>ro b'. loadLine e b l = Return (ro, b') \<and>
             (\<forall>r. ro = Some r \<longrightarrow> GetType r \<noteq> ''payment'' \<and>
                (\<forall>sr. r = SEBAKError sr \<longrightarrow>
                   count_sebak_error e Map.empty (RawError sr) \<noteq> Panicked))"
    by simp
  from Cons.IH[OF this, of st1] obtain st' where
    "load_records e st1 ss = Return st'" "records st' = records st1" by blast
  then show ?case using i r by simp
qed

text \<open>
  C5, as amended. When the first line decodes to a configuration and every later line
  decodes without an error to a control event or to a record that is not a payment,
  the nested payload of every sebak-error record among them being shaped so that no
  type assertion fails, the run ends with "no records found" and exit status 1, and no
  report is built.
\<close>

theorem no_payment_records_exit_1:
  assumes "loadLine e \<lparr>started = 0, ended = 0\<rparr> (headLine ls) = Return (Some (Config c), b0)"
    and "\<forall>l \<in> set (drop 1 ls). \<forall>b. \<exists>ro b'. loadLine e b l = Return (ro, b') \<and>
             (\<forall>r. ro = Some r \<longrightarrow> GetType r \<noteq> ''payment'' \<and>
                (\<forall>sr. r = SEBAKError sr \<longrightarrow>
                   count_sebak_error e Map.empty (RawError sr) \<noteq> Panicked))"
  shows "runResult e flagBrief ls = ExitNoRecords \<and> exit_status (runResult e flagBrief ls) = 1"
proof -
  from load_records_harmless[OF assms(2), of "\<lparr>records = [], sebakErrors = Map.empty, bounds = b0\<rparr>"]
  obtain st' where
    "load_records e \<lparr>records = [], sebakErrors = Map.empty, bounds = b0\<rparr> (drop 1 ls) = Return st'"
    "records st' = []" by auto
  then have "runResult e flagBrief ls = ExitNoRecords"
    by (simp add: runResult_config[OF assms(1)])
  then show ?thesis by simp
qed

text \<open>
  The amended statement at a sample log of a configuration, a start line, a
  create-accounts record and two sebak-error records.
\<close>

theorem no_payment_records_exit_1_witness:
  "loadLine sample_env \<lparr>started = 0, ended = 0\<rparr>
     (headLine [config_line, started_line, accounts_error_line, sebak_702_line, sebak_no_data_line]) =
     Return (Some (Config sample_config), \<lparr>started = 0, ended = 0\<rparr>)
   \<and> runResult sample_env False
       [config_line, started_line, accounts_error_line, sebak_702_line, sebak_no_data_line] =
      ExitNoRecords"
proof -
  let ?ls = "[config_line, started_line, accounts_error_line, sebak_702_line, sebak_no_data_line]"
  have l: "loadLine sample_env \<lparr>started = 0, ended = 0\<rparr> (headLine ?ls) =
     Return (Some (Config sample_config), \<lparr>started = 0, ended = 0\<rparr>)"
    by (simp add: headLine_def sample_loadLine)
  have h: "\<forall>l \<in> set (drop 1 ?ls). \<forall>b. \<exists>ro b'. loadLine sample_env b l = Return (ro, b') \<and>
             (\<forall>r. ro = Some r \<longrightarrow> GetType r \<noteq> ''payment'' \<and>
                (\<forall>sr. r = SEBAKError sr \<longrightarrow>
                   count_sebak_error sample_env Map.empty (RawError sr) \<noteq> Panicked))"
    by (simp add: sample_loadLine sample_count_sebak_error)
  show ?thesis
    using no_payment_records_exit_1[OF l h, of False] l by simp
qed

text \<open>
  C5 as stated fails: every line of the two logs below decodes without an error and
  none is a payment, yet the run panics (exit status 2, nothing printed by
  \<^verbatim>\<open>runResult\<close>). In the first the only line is a \<^verbatim>\<open>started\<close> line, so that the type
  assertion of line 146 meets a nil record; in the second a sebak-error record has a
  \<^verbatim>\<open>data\<close> object without \<^verbatim>\<open>body\<close>, so that the type assertion of line 168 fails.
\<close>

theorem no_payment_records_counterexample:
  "loadLine sample_env \<lparr>started = 0, ended = 0\<rparr> started_line =
     Return (None, \<lparr>started = t2019, ended = 0\<rparr>)
   \<and> runResult sample_env False [started_line] = ExitPanic
   \<and> exit_status (runResult sample_env False [started_line]) = 2
   \<and> loadLine sample_env \<lparr>started = 0, ended = 0\<rparr> config_line =
     Return (Some (Config sample_config), \<lparr>started = 0, ended = 0\<rparr>)
   \<and> loadLine sample_env \<lparr>started = 0, ended = 0\<rparr> sebak_no_body_line =
     Return (Some (SEBAKError (sebak_body [(''data'', JObject [])])), \<lparr>started = 0, ended = 0\<rparr>)
   \<and> runResult sample_env False [config_line, sebak_no_body_line] = ExitPanic"
  by (simp add: runResult_def headLine_def sample_loadLine ingest_line_def
      sample_count_sebak_error printError_def)

text \<open>
  C9. When the log has no first line (the text read is empty, which is not JSON), or the
  first line fails to decode, or it does not decode to a configuration record, the run
  ends at the first line, whatever follows: with the error of \<^verbatim>\<open>loadLine\<close> handed to
  \<^verbatim>\<open>printError\<close>, or with a panic. No report is produced, "no records found" is not
  reached, and the exit status is not 0.
\<close>

theorem head_line_not_config_is_fatal:
  "(ls = [] \<and> parse_json e [] = None \<longrightarrow> runResult e flagBrief ls = ExitFatal JSONError)
   \<and> ((\<forall>c b. loadLine e \<lparr>started = 0, ended = 0\<rparr> (headLine ls) \<noteq> Return (Some (Config c), b))
      \<longrightarrow> runResult e flagBrief ls =
            (case loadLine e \<lparr>started = 0, ended = 0\<rparr> (headLine ls) of
               Failed err \<Rightarrow> ExitFatal err | _ \<Rightarrow> ExitPanic)
        \<and> (\<forall>rep. runResult e flagBrief ls \<noteq> ExitReport rep)
        \<and> runResult e flagBrief ls \<noteq> ExitNoRecords
        \<and> exit_status (runResult e flagBrief ls) \<noteq> 0)"
proof (intro conjI impI)
  assume "ls = [] \<and> parse_json e [] = None"
  then have "loadLine e \<lparr>started = 0, ended = 0\<rparr> (headLine ls) = Failed JSONError"
    by (simp add: headLine_def loadLine_def unmarshal_map_def unmarshal_into_map_def)
  then show "runResult e flagBrief ls = ExitFatal JSONError"
    by (simp add: runResult_def printError_def)
next
  assume h: "\<forall>c b. loadLine e \<lparr>started = 0, ended = 0\<rparr> (headLine ls) \<noteq> Return (Some (Config c), b)"
  note r = runResult_not_config[OF h, of flagBrief]
  show "runResult e flagBrief ls =
            (case loadLine e \<lparr>started = 0, ended = 0\<rparr> (headLine ls) of
               Failed err \<Rightarrow> ExitFatal err | _ \<Rightarrow> ExitPanic)"
    by (rule r)
  show "\<forall>rep. runResult e flagBrief ls \<noteq> ExitReport rep"
    unfolding r by (simp split: result.splits)
  show "runResult e flagBrief ls \<noteq> ExitNoRecords"
    unfolding r by (simp split: result.splits)
  show "exit_status (runResult e flagBrief ls) \<noteq> 0"
    unfolding r by (simp split: result.splits)
qed

text \<open>
  The theorem at the empty log, at a log that starts with a \<^verbatim>\<open>started\<close> line and at a
  log that starts with a payment.
\<close>

theorem head_line_not_config_is_fatal_witness:
  "parse_json sample_env [] = None
   \<and> runResult sample_env False [] = ExitFatal JSONError
   \<and> loadLine sample_env \<lparr>started = 0, ended = 0\<rparr>
        (headLine [started_line, config_line, payment_10_line]) =
      Return (None, \<lparr>started = t2019, ended = 0\<rparr>)
   \<and> runResult sample_env False [started_line, config_line, payment_10_line] = ExitPanic
   \<and> loadLine sample_env \<lparr>started = 0, ended = 0\<rparr> (headLine [payment_10_line]) =
      Return (Some (Payment payment_10), \<lparr>started = 0, ended = 0\<rparr>)
   \<and> runResult sample_env False [payment_10_line] = ExitPanic"
proof -
  have p: "parse_json sample_env [] = None"
    by (simp add: sample_env_def sample_documents_def sample_reported_documents_def line_defs)
  have l1: "loadLine sample_env \<lparr>started = 0, ended = 0\<rparr>
        (headLine [started_line, config_line, payment_10_line]) =
      Return (None, \<lparr>started = t2019, ended = 0\<rparr>)"
    by (simp add: headLine_def sample_loadLine)
  have l2: "loadLine sample_env \<lparr>started = 0, ended = 0\<rparr> (headLine [payment_10_line]) =
      Return (Some (Payment payment_10), \<lparr>started = 0, ended = 0\<rparr>)"
    by (simp add: headLine_def sample_loadLine)
  show ?thesis
    using head_line_not_config_is_fatal[of "[]" sample_env False]
      head_line_not_config_is_fatal[of "[started_line, config_line, payment_10_line]" sample_env False]
      head_line_not_config_is_fatal[of "[payment_10_line]" sample_env False]
      p l1 l2
    by simp
qed


subsection \<open>Sample runs\<close>

lemma agg_60:
  "aggregate_records [Payment payment_60] =
     \<lparr>els = [50000000000 \<mapsto> 1], maxElapsedTime = 60000000000, minElapsedTime = 60000000000,
      countError = 0, errorTypes = Map.empty\<rparr>"
  by (simp add: aggregate_records_def aggregate_record_def aggregator_init_def Let_def
      GetElapsed_def GetError_def payment_60_def go_int_def step_def increment_def)

lemma sample_run_60:
  "runResult sample_env True [config_line, started_line, payment_60_line] =
     ExitReport
       \<lparr>requests = 1, operations = 2, error_count = 0, error_rate = 0,
        max_elapsed = 6, min_elapsed = 6,
        distribution = [(0, 0), (50000000000, 1), (100000000000, 0)],
        time_started = t2019, time_ended = t2019 + 60000000000,
        expected_ops = Finite (1 / 30), real_ops = Finite (1 / 30),
        error_types = Map.empty, sebak_errors = Map.empty\<rparr>"
proof -
  have l: "loadLine sample_env \<lparr>started = 0, ended = 0\<rparr>
             (headLine [config_line, started_line, payment_60_line]) =
           Return (Some (Config sample_config), \<lparr>started = 0, ended = 0\<rparr>)"
    by (simp add: headLine_def sample_loadLine)
  show ?thesis
    unfolding runResult_config[OF l]
    by (simp add: ingest_line_def sample_loadLine build_report_def agg_60 finalize_def
        step_def go_int_def Let_def GetTime_def sample_times time_Sub_def Seconds_def fdiv_def
        sample_config_def)
qed


lemma sample_run_without_started:
  "runResult sample_env True [config_line, payment_60_line] =
     ExitReport
       \<lparr>requests = 1, operations = 2, error_count = 0, error_rate = 0,
        max_elapsed = 6, min_elapsed = 6,
        distribution = [(0, 0), (50000000000, 1), (100000000000, 0)],
        time_started = 0, time_ended = t2019 + 60000000000,
        expected_ops = Finite (2 / Seconds 9223372036854775807),
        real_ops = Finite (2 / Seconds 9223372036854775807),
        error_types = Map.empty, sebak_errors = Map.empty\<rparr>"
proof -
  have l: "loadLine sample_env \<lparr>started = 0, ended = 0\<rparr>
             (headLine [config_line, payment_60_line]) =
           Return (Some (Config sample_config), \<lparr>started = 0, ended = 0\<rparr>)"
    by (simp add: headLine_def sample_loadLine)
  show ?thesis
    unfolding runResult_config[OF l]
    by (simp add: ingest_line_def sample_loadLine build_report_def agg_60 finalize_def
        step_def go_int_def Let_def GetTime_def sample_times time_Sub_def Seconds_def fdiv_def
        sample_config_def t2019_def)
qed

text \<open>
  The amended statement at a sample log whose payment ends one minute after the start,
  and at the same log without its \<^verbatim>\<open>started\<close> line, where the time base is the largest
  duration, about 292 years.
\<close>

theorem ops_division_is_unguarded_witness:
  "runResult sample_env True [config_line, started_line, payment_60_line] =
     ExitReport
       \<lparr>requests = 1, operations = 2, error_count = 0, error_rate = 0,
        max_elapsed = 6, min_elapsed = 6,
        distribution = [(0, 0), (50000000000, 1), (100000000000, 0)],
        time_started = t2019, time_ended = t2019 + 60000000000,
        expected_ops = Finite (1 / 30), real_ops = Finite (1 / 30),
        error_types = Map.empty, sebak_errors = Map.empty\<rparr>
   \<and> fdiv 2 (Seconds (time_Sub (t2019 + 60000000000) t2019)) = Finite (1 / 30)
   \<and> unmarshal_map sample_env config_line =
        Some [(''type'', JString ''config''), (''config'', JObject [(''operations'', JNumber 2)])]
   \<and> unmarshal_map sample_env payment_60_line =
        Some (payment_document ''2019-01-01T00:01:00Z'' 60000000000)
   \<and> runResult sample_env True [config_line, payment_60_line] =
     ExitReport
       \<lparr>requests = 1, operations = 2, error_count = 0, error_rate = 0,
        max_elapsed = 6, min_elapsed = 6,
        distribution = [(0, 0), (50000000000, 1), (100000000000, 0)],
        time_started = 0, time_ended = t2019 + 60000000000,
        expected_ops = Finite (2 / Seconds 9223372036854775807),
        real_ops = Finite (2 / Seconds 9223372036854775807),
        error_types = Map.empty, sebak_errors = Map.empty\<rparr>"
proof -
  have n: "\<forall>l \<in> set [config_line, payment_60_line]. \<forall>d. unmarshal_map sample_env l = Some d \<longrightarrow>
              map_of d ''type'' \<noteq> Some (JString ''started'')"
    by (simp add: sample_unmarshal sample_type)
  have q: "fdiv 2 (Seconds (time_Sub (t2019 + 60000000000) t2019)) = Finite (1 / 30)"
    by (simp add: time_Sub_def Seconds_def fdiv_def)
  show ?thesis
    using ops_division_is_unguarded[OF sample_run_60]
      ops_division_is_unguarded[OF sample_run_without_started] n q
      sample_run_60 sample_run_without_started
    by (simp add: sample_unmarshal)
qed

text \<open>
  C2 as stated fails: the create-accounts record of the sample log carries an error of
  type \<^verbatim>\<open>timeout\<close>, and the report of a log that contains it counts no error and has no
  error type.
\<close>

theorem error_types_counterexample:
  "loadLine sample_env \<lparr>started = t2019, ended = 0\<rparr> accounts_error_line =
     Return (Some (CreateAccounts accounts_error), \<lparr>started = t2019, ended = 0\<rparr>)
   \<and> GetError (CreateAccounts accounts_error) = Some ''timeout''
   \<and> GetErrorType (CreateAccounts accounts_error) = ''timeout''
   \<and> runResult sample_env True [config_line, started_line, accounts_error_line, payment_60_line] =
     ExitReport
       \<lparr>requests = 1, operations = 2, error_count = 0, error_rate = 0,
        max_elapsed = 6, min_elapsed = 6,
        distribution = [(0, 0), (50000000000, 1), (100000000000, 0)],
        time_started = t2019, time_ended = t2019 + 60000000000,
        expected_ops = Finite (1 / 30), real_ops = Finite (1 / 30),
        error_types = Map.empty, sebak_errors = Map.empty\<rparr>"
proof -
  have l: "loadLine sample_env \<lparr>started = 0, ended = 0\<rparr>
             (headLine [config_line, started_line, accounts_error_line, payment_60_line]) =
           Return (Some (Config sample_config), \<lparr>started = 0, ended = 0\<rparr>)"
    by (simp add: headLine_def sample_loadLine)
  have r: "runResult sample_env True [config_line, started_line, accounts_error_line, payment_60_line] =
     ExitReport
       \<lparr>requests = 1, operations = 2, error_count = 0, error_rate = 0,
        max_elapsed = 6, min_elapsed = 6,
        distribution = [(0, 0), (50000000000, 1), (100000000000, 0)],
        time_started = t2019, time_ended = t2019 + 60000000000,
        expected_ops = Finite (1 / 30), real_ops = Finite (1 / 30),
        error_types = Map.empty, sebak_errors = Map.empty\<rparr>"
    unfolding runResult_config[OF l]
    by (simp add: ingest_line_def sample_loadLine build_report_def agg_60 finalize_def
        step_def go_int_def Let_def GetTime_def sample_times time_Sub_def Seconds_def fdiv_def
        sample_config_def)
  have e: "GetError (CreateAccounts accounts_error) = Some ''timeout''"
    "GetErrorType (CreateAccounts accounts_error) = ''timeout''"
    by (simp_all add: GetError_def GetErrorType_def accounts_error_def)
  show ?thesis using r e by (simp add: sample_loadLine)
qed

lemma agg_timeout:
  "errorTypes (aggregate_records [Payment payment_timeout]) = [''timeout'' \<mapsto> 1]"
  by (simp add: aggregate_records_def aggregate_record_def aggregator_init_def Let_def
      GetError_def GetErrorType_def payment_timeout_def increment_def)

text \<open>
  The amended statement of C2 at the create-accounts line and at the payment line with
  a timeout, each ingested into the empty state.
\<close>

theorem error_types_count_payments_only_witness:
  "loadLine sample_env (bounds loaded_init) accounts_error_line =
     Return (Some (CreateAccounts accounts_error), boundaries_init)
   \<and> GetType (CreateAccounts accounts_error) \<noteq> ''payment''
   \<and> ingest_line sample_env loaded_init accounts_error_line = Return loaded_init
   \<and> loadLine sample_env (bounds loaded_init) payment_timeout_line =
     Return (Some (Payment payment_timeout), boundaries_init)
   \<and> ingest_line sample_env loaded_init payment_timeout_line =
       Return (loaded_init\<lparr>records := [Payment payment_timeout]\<rparr>)
   \<and> errorTypes (aggregate_records (records loaded_init)) = Map.empty
   \<and> errorTypes (aggregate_records [Payment payment_timeout]) = [''timeout'' \<mapsto> 1]"
proof -
  have b: "bounds loaded_init = boundaries_init" "records loaded_init = []"
    by (simp_all add: loaded_init_def)
  have l1: "loadLine sample_env (bounds loaded_init) accounts_error_line =
     Return (Some (CreateAccounts accounts_error), boundaries_init)"
    by (simp add: sample_loadLine b)
  have l2: "loadLine sample_env (bounds loaded_init) payment_timeout_line =
     Return (Some (Payment payment_timeout), boundaries_init)"
    by (simp add: sample_loadLine b)
  have "ingest_line sample_env loaded_init accounts_error_line =
          Return (loaded_init\<lparr>bounds := boundaries_init\<rparr>)"
    by (rule ingest_line_create_accounts[OF l1])
  then have i1: "ingest_line sample_env loaded_init accounts_error_line = Return loaded_init"
    by (simp add: loaded_init_def)
  have a0: "errorTypes (aggregate_records (records loaded_init)) = Map.empty"
    by (simp add: b aggregate_records_def aggregator_init_def)
  have t: "Error payment_timeout \<noteq> None" "ErrorType payment_timeout = ''timeout''"
    by (simp_all add: payment_timeout_def)
  show ?thesis
    using error_types_count_payments_only[of sample_env loaded_init accounts_error_line
        "CreateAccounts accounts_error" boundaries_init loaded_init payment_timeout]
      error_types_count_payments_only[of sample_env loaded_init payment_timeout_line
        "CreateAccounts accounts_error" boundaries_init loaded_init payment_timeout]
      l1 l2 i1 a0 agg_timeout t b
    by (simp add: loaded_init_def)
qed




subsection \<open>The keys of the finalized histogram\<close>

lemma go_int_of_int: "go_int (of_int k) = k"
  by (simp add: go_int_def)

lemma fill_buckets_keys:
  "i = of_int k * step \<Longrightarrow>
   snd (fill_buckets i bound m ks) =
     ks @ map (\<lambda>j. j * 50000000000) [k..\<lceil>bound / step\<rceil> - 1]"
proof (induction i bound m ks arbitrary: k rule: fill_buckets.induct)
  case (1 i bound m ks)
  have gi: "go_int i = k * 50000000000"
  proof -
    have "i = of_int (k * 50000000000)" using "1.prems" by (simp add: step_def)
    then show ?thesis by (simp only: go_int_of_int)
  qed
  show ?case
  proof (cases "i < bound")
    case True
    then have "of_int k < bound / step"
      using "1.prems" by (simp add: step_def field_simps)
    then have le: "k \<le> \<lceil>bound / step\<rceil> - 1"
      by (simp add: less_ceiling_iff)
    have nxt: "i + step = of_int (k + 1) * step"
      using "1.prems" by (simp add: algebra_simps)
    have "snd (fill_buckets i bound m ks) =
          snd (fill_buckets (i + step) bound (if m i = None then m(i \<mapsto> 0) else m) (ks @ [go_int i]))"
      using True by (subst fill_buckets.simps) (simp del: fill_buckets.simps)
    also have "\<dots> = (ks @ [go_int i]) @ map (\<lambda>j. j * 50000000000) [k + 1..\<lceil>bound / step\<rceil> - 1]"
      using "1.IH"[OF True nxt] .
    also have "\<dots> = ks @ map (\<lambda>j. j * 50000000000) [k..\<lceil>bound / step\<rceil> - 1]"
      using le gi by (simp add: upto_rec1[of k])
    finally show ?thesis .
  next
    case False
    then have "bound / step \<le> of_int k"
      using "1.prems" by (simp add: step_def field_simps)
    then have "\<lceil>bound / step\<rceil> \<le> k"
      by (simp add: ceiling_le_iff)
    then have e: "[k..\<lceil>bound / step\<rceil> - 1] = []" by simp
    have "snd (fill_buckets i bound m ks) = ks"
      using False by (subst fill_buckets.simps) (simp del: fill_buckets.simps)
    then show ?thesis using e by simp
  qed
qed

lemma sorted_bucket_keys: "sorted (map (\<lambda>j. j * (50000000000::int)) [a..b])"
  by (rule sorted_wrt_mono_rel[OF _ sorted_upto, THEN sorted_map[THEN iffD2]]) simp

lemma finalize_keys:
  "snd (finalize a) = map (\<lambda>j. j * 50000000000) [0..\<lceil>maxElapsedTime a / step\<rceil>]"
proof -
  have b: "\<lceil>(maxElapsedTime a / step * step + step) / step\<rceil> - 1 = \<lceil>maxElapsedTime a / step\<rceil>"
  proof -
    have "(maxElapsedTime a / step * step + step) / step = maxElapsedTime a / step + 1"
      by (simp add: step_def field_simps)
    then show ?thesis by simp
  qed
  have "snd (fill_buckets 0 (maxElapsedTime a / step * step + step) (els a) []) =
        [] @ map (\<lambda>j. j * 50000000000) [0..\<lceil>(maxElapsedTime a / step * step + step) / step\<rceil> - 1]"
    by (rule fill_buckets_keys) simp
  then have k: "snd (fill_buckets 0 (maxElapsedTime a / step * step + step) (els a) []) =
        map (\<lambda>j. j * 50000000000) [0..\<lceil>maxElapsedTime a / step\<rceil>]"
    by (simp only: b append_Nil)
  obtain m ks where f: "fill_buckets 0 (maxElapsedTime a / step * step + step) (els a) [] = (m, ks)"
    by (cases "fill_buckets 0 (maxElapsedTime a / step * step + step) (els a) []")
  have "finalize a = (m, sort ks)"
    by (simp only: finalize_def f prod.case)
  moreover have "ks = map (\<lambda>j. j * 50000000000) [0..\<lceil>maxElapsedTime a / step\<rceil>]"
    using k by (simp only: f snd_conv)
  ultimately show ?thesis
    using sorted_sort_id[OF sorted_bucket_keys[of 0 "\<lceil>maxElapsedTime a / step\<rceil>"]]
    by (simp only: snd_conv)
qed

text \<open>
  C3 fails on the code. The keys collected by the loop of lines 222 to 227 are the
  multiples of the bucket width up to \<open>\<lceil>max / step\<rceil> * step\<close>, not up to the bucket
  \<open>\<lfloor>max / step\<rfloor> * step\<close> of the largest elapsed time: the bound
  \<^verbatim>\<open>((maxElapsedTime/step)*step)+step\<close> divides floats, so nothing is rounded down, whereas
  line 204 converts the quotient to \<^verbatim>\<open>int\<close> first. A single payment of 10 seconds has
  its bucket, and the bucket of the largest elapsed time, at 0; the loop nevertheless
  adds the key 50000000000 with an explicit zero, a bucket beyond the largest elapsed
  time.
\<close>

theorem finalize_adds_bucket_beyond_max:
  "snd (finalize a) = map (\<lambda>j. j * 50000000000) [0..\<lceil>maxElapsedTime a / step\<rceil>]
   \<and> maxElapsedTime (aggregate_records [Payment payment_10]) = 10000000000
   \<and> go_int (10000000000 / step) * go_int step = 0
   \<and> snd (finalize (aggregate_records [Payment payment_10])) = [0, 50000000000]
   \<and> fst (finalize (aggregate_records [Payment payment_10])) 50000000000 = Some 0"
proof (intro conjI)
  show "snd (finalize a) = map (\<lambda>j. j * 50000000000) [0..\<lceil>maxElapsedTime a / step\<rceil>]"
    by (rule finalize_keys)
  show "maxElapsedTime (aggregate_records [Payment payment_10]) = 10000000000"
    by (simp add: agg_one)
  show "go_int (10000000000 / step) * go_int step = 0"
    by (simp add: go_int_def step_def)
  show "snd (finalize (aggregate_records [Payment payment_10])) = [0, 50000000000]"
    by (simp add: agg_one fin_one)
  show "fst (finalize (aggregate_records [Payment payment_10])) 50000000000 = Some 0"
    by (simp add: agg_one fin_one)
qed

end
